theory Spec2Isabelle
  imports Main "HOL-Library.AList" "HOL-Library.Sublist" "HOL-Library.Word"
begin

section \<open>Strings\<close>

text \<open>
  Python strings are modelled as \<open>string\<close>, a character standing for a code point
  below 256. In that range \<open>str.strip()\<close> removes the code points 9 to 13, 28 to 32,
  133 (next line) and 160 (no-break space).
\<close>

definition is_space :: "char \<Rightarrow> bool" where
  "is_space c =
     (c \<in> set (map char_of [9, 10, 11, 12, 13, 28, 29, 30, 31, 32, 133, 160 :: nat]))"

definition strip :: "string \<Rightarrow> string" where
  "strip s = rev (dropWhile is_space (rev (dropWhile is_space s)))"

text \<open>\<open>s.rstrip(":")\<close>\<close>

definition rstrip_colon :: "string \<Rightarrow> string" where
  "rstrip_colon s = rev (dropWhile (\<lambda>c. c = CHR '':'') (rev s))"

text \<open>\<open>sep.join(parts)\<close>\<close>

fun join :: "string \<Rightarrow> string list \<Rightarrow> string" where
  "join sep [] = []"
| "join sep [x] = x"
| "join sep (x # y # ys) = x @ sep @ join sep (y # ys)"

text \<open>\<open>str(n)\<close> of a natural number.\<close>

function str_nat :: "nat \<Rightarrow> string" where
  "str_nat n =
     (if n < 10 then [char_of (48 + n)] else str_nat (n div 10) @ [char_of (48 + n mod 10)])"
  by pat_completeness auto
termination
  by (relation "measure id") auto

declare str_nat.simps [simp del]

definition str_int :: "int \<Rightarrow> string" where
  "str_int i = (if i < 0 then CHR ''-'' # str_nat (nat (- i)) else str_nat (nat i))"

section \<open>The parsed document\<close>

text \<open>
  A BeautifulSoup tree. A tag has a name, its attribute dictionary (an association list
  in the order of the dictionary, keys distinct) and its children. \<open>NavigableString\<close> is
  a text node that \<open>get_text\<close> collects; \<open>Comment\<close> stands for the string nodes that
  \<open>get_text\<close> leaves out (comments, declarations and the like).
  The parser itself, \<open>BeautifulSoup(html, "html.parser")\<close>, is a library function: the
  model takes it as the parameter \<open>soup_of\<close> below.
\<close>

datatype node =
    Tag string "(string \<times> string) list" "node list"
  | NavigableString string
  | Comment string

text \<open>
  Every node below a node, in document order, each with its \<open>next_sibling\<close>
  (\<open>None\<close> for a last child).
\<close>

fun elements :: "node \<Rightarrow> (node \<times> node option) list"
  and elements_list :: "node list \<Rightarrow> (node \<times> node option) list" where
  "elements (Tag n a cs) = elements_list cs"
| "elements (NavigableString s) = []"
| "elements (Comment s) = []"
| "elements_list [] = []"
| "elements_list (c # cs) =
     (c, case cs of [] \<Rightarrow> None | d # _ \<Rightarrow> Some d) # elements c @ elements_list cs"

definition descendants :: "node \<Rightarrow> node list" where
  "descendants n = map fst (elements n)"

fun is_tag :: "string list \<Rightarrow> node \<Rightarrow> bool" where
  "is_tag names (Tag n a cs) = (n \<in> set names)"
| "is_tag names (NavigableString s) = False"
| "is_tag names (Comment s) = False"

text \<open>\<open>node.find_all(names)\<close> and \<open>node.find(name)\<close>\<close>

definition find_all :: "string list \<Rightarrow> node \<Rightarrow> node list" where
  "find_all names n = filter (is_tag names) (descendants n)"

definition find_tag :: "string \<Rightarrow> node \<Rightarrow> node option" where
  "find_tag nm n = (case find_all [nm] n of [] \<Rightarrow> None | t # _ \<Rightarrow> Some t)"

text \<open>\<open>tag.get(key)\<close>\<close>

fun get_attr :: "node \<Rightarrow> string \<Rightarrow> string option" where
  "get_attr (Tag n a cs) k = map_of a k"
| "get_attr (NavigableString s) k = None"
| "get_attr (Comment s) k = None"

text \<open>
  \<open>tr.find("a", href=True)\<close> followed by \<open>["href"]\<close>: the \<open>href\<close> of the first
  \<open>a\<close> tag below that has one.
\<close>

definition find_a_href :: "node \<Rightarrow> string option" where
  "find_a_href n =
     (case List.map_filter (\<lambda>t. get_attr t ''href'') (find_all [''a''] n) of
        [] \<Rightarrow> None | h # _ \<Rightarrow> Some h)"

text \<open>The text nodes that \<open>get_text\<close> sees.\<close>

fun string_of :: "node \<Rightarrow> string option" where
  "string_of (NavigableString s) = Some s"
| "string_of (Tag n a cs) = None"
| "string_of (Comment s) = None"

text \<open>
  \<open>node.get_text(sep, strip=True)\<close>: every text node below is stripped, the empty ones
  are dropped and the rest joined with the separator.
\<close>

definition get_text :: "string \<Rightarrow> node \<Rightarrow> string" where
  "get_text sep n =
     join sep (filter (\<lambda>s. s \<noteq> []) (map strip (List.map_filter string_of (descendants n))))"

text \<open>
  Truth value of a node in \<open>if next_node:\<close>. A tag is always true; a string node is a
  Python string and is true when it is not empty.
\<close>

fun node_truthy :: "node \<Rightarrow> bool" where
  "node_truthy (Tag n a cs) = True"
| "node_truthy (NavigableString s) = (s \<noteq> [])"
| "node_truthy (Comment s) = (s \<noteq> [])"

section \<open>Library functions taken as parameters\<close>

datatype jtotal = TInt int | TStr string

text \<open>
  An entry of a grid row: a key with a string value, or the key \<open>EventoId\<close> with an
  integer value (an integer that pandas holds as \<open>int64\<close>). A row is the list of its
  entries in the order of the dictionary, keys distinct. Rows with other values (numbers
  under other keys, floats, booleans, null, nested values) are outside the model.
\<close>

datatype entry = Field string string | IntId "64 word"

type_synonym grid_row = "entry list"

text \<open>
  The decoded body of a grid response: either something that is not a JSON object, or an
  object of which the model keeps the entries \<open>total\<close> and \<open>rows\<close> (\<open>None\<close> when
  the key is missing or null). The model covers a \<open>total\<close> that is an integer or a string,
  and \<open>rows\<close> that is a list of rows.
\<close>

datatype json =
    JNonDict
  | JDict "jtotal option" "grid_row list option"

record response =
  status_code :: nat
  resp_text :: string

text \<open>
  \<^item> \<open>urljoin\<close>: \<open>urllib.parse.urljoin\<close>;
  \<^item> \<open>soup_of\<close>: \<open>BeautifulSoup(html, "html.parser")\<close>, the document node;
  \<^item> \<open>node_str\<close>: \<open>str(node)\<close>, the markup of a node;
  \<^item> \<open>json_loads\<close>: the decoder behind \<open>response.json()\<close>, \<open>None\<close> when decoding
    fails;
  \<^item> \<open>http_error_msg\<close>: the message of the error \<open>raise_for_status\<close> raises;
  \<^item> \<open>py_int\<close>: \<open>int(s)\<close> of a string, \<open>None\<close> when it raises \<open>ValueError\<close>;
  \<^item> \<open>float_str\<close>: \<open>str(float(n))\<close> of an integer.
\<close>

record lib =
  urljoin :: "string \<Rightarrow> string \<Rightarrow> string"
  soup_of :: "string \<Rightarrow> node"
  node_str :: "node \<Rightarrow> string"
  json_loads :: "string \<Rightarrow> json option"
  http_error_msg :: "response \<Rightarrow> string"
  py_int :: "string \<Rightarrow> int option"
  float_str :: "int \<Rightarrow> string"

section \<open>The detail page\<close>

type_synonym dict = "(string \<times> string) list"

text \<open>
  The first two cells of a row, when it has two:
  \<open>cells = tr.find_all(["th", "td"])\<close>, \<open>len(cells) >= 2\<close>,
  \<open>cells[0].get_text(" ", strip=True)\<close> and \<open>cells[1].get_text(" ", strip=True)\<close>.
\<close>

definition row_pair :: "node \<Rightarrow> (string \<times> string) option" where
  "row_pair tr =
     (case find_all [''th'', ''td''] tr of
        c0 # c1 # _ \<Rightarrow> Some (get_text '' '' c0, get_text '' '' c1)
      | _ \<Rightarrow> None)"

text \<open>The body of the loop over the rows: \<open>if key: data[key] = value\<close>.\<close>

definition table_step :: "node \<Rightarrow> dict \<Rightarrow> dict" where
  "table_step tr data =
     (case row_pair tr of
        Some (key, v) \<Rightarrow> if key \<noteq> [] then AList.update key v data else data
      | None \<Rightarrow> data)"

text \<open>The text of the first cell of a row, when the row has a cell.\<close>

definition first_cell_text :: "node \<Rightarrow> string option" where
  "first_cell_text tr =
     (case find_all [''th'', ''td''] tr of [] \<Rightarrow> None | c0 # _ \<Rightarrow> Some (get_text '' '' c0))"

text \<open>
  The rows in the order the two nested loops visit them:
  \<open>for table in soup.find_all("table"): for tr in table.find_all("tr")\<close>.
\<close>

definition table_rows :: "node \<Rightarrow> node list" where
  "table_rows soup = concat (map (find_all [''tr'']) (find_all [''table''] soup))"

text \<open>The same visits, read off a list of nodes in document order.\<close>

definition visits :: "node list \<Rightarrow> node list" where
  "visits ns = concat (map (find_all [''tr'']) (filter (is_tag [''table'']) ns))"

definition table_strategy :: "node \<Rightarrow> dict \<Rightarrow> dict" where
  "table_strategy soup data = fold table_step (table_rows soup) data"

text \<open>
  The body of the loop over the labels; the argument is the label with its
  \<open>next_sibling\<close>.
\<close>

definition label_step :: "lib \<Rightarrow> node \<times> node option \<Rightarrow> dict \<Rightarrow> dict" where
  "label_step l p data =
     (let key = rstrip_colon (get_text '' '' (fst p)) in
      if key = [] then data
      else
        let sibling_text =
              (case snd p of
                 None \<Rightarrow> []
               | Some next_node \<Rightarrow>
                   if node_truthy next_node then strip (node_str l next_node) else [])
        in if sibling_text \<noteq> [] \<and> key \<notin> fst ` set data
           then AList.update key (get_text '' '' (soup_of l sibling_text)) data
           else data)"

definition label_strategy :: "lib \<Rightarrow> node \<Rightarrow> dict \<Rightarrow> dict" where
  "label_strategy l soup data =
     fold (label_step l)
       (filter (\<lambda>p. is_tag [''label'', ''strong'', ''b''] (fst p)) (elements soup)) data"

definition parse_event_detail_soup :: "lib \<Rightarrow> node \<Rightarrow> dict" where
  "parse_event_detail_soup l soup =
     (let data = label_strategy l soup (table_strategy soup [])
      in if data = [] then [(''contenido'', get_text '' '' soup)] else data)"

definition parse_event_detail :: "lib \<Rightarrow> string \<Rightarrow> dict" where
  "parse_event_detail l html = parse_event_detail_soup l (soup_of l html)"


section \<open>The filter form\<close>

text \<open>\<open>a or b\<close> on the results of \<open>tag.get\<close>: the first when it is a non-empty string.\<close>

definition py_or :: "string option \<Rightarrow> string option \<Rightarrow> string option" where
  "py_or a b = (case a of None \<Rightarrow> b | Some s \<Rightarrow> if s \<noteq> [] then Some s else b)"

text \<open>\<open>value = (option.get("value") or "").strip()\<close> and \<open>label = option.get_text(strip=True)\<close>\<close>

definition option_value :: "node \<Rightarrow> string" where
  "option_value opt = strip (case get_attr opt ''value'' of None \<Rightarrow> [] | Some v \<Rightarrow> v)"

definition option_label :: "node \<Rightarrow> string" where
  "option_label opt = get_text [] opt"

text \<open>\<open>a or b\<close> on strings.\<close>

definition or_str :: "string \<Rightarrow> string \<Rightarrow> string" where
  "or_str a b = (if a \<noteq> [] then a else b)"

text \<open>\<open>if value or label: options[label or value] = value\<close>\<close>

definition option_step :: "node \<Rightarrow> dict \<Rightarrow> dict" where
  "option_step opt options =
     (let v = option_value opt; label = option_label opt
      in if v \<noteq> [] \<or> label \<noteq> []
         then AList.update (or_str label v) v options
         else options)"

definition select_options :: "node \<Rightarrow> dict" where
  "select_options sel = fold option_step (find_all [''option''] sel) []"

text \<open>\<open>name = select.get("name") or select.get("id")\<close>\<close>

definition select_name :: "node \<Rightarrow> string option" where
  "select_name sel = py_or (get_attr sel ''name'') (get_attr sel ''id'')"

definition select_step :: "node \<Rightarrow> (string \<times> dict) list \<Rightarrow> (string \<times> dict) list" where
  "select_step sel filters =
     (case select_name sel of
        None \<Rightarrow> filters
      | Some nm \<Rightarrow> if nm = [] then filters else AList.update nm (select_options sel) filters)"

definition extract_filter_options :: "lib \<Rightarrow> string \<Rightarrow> (string \<times> dict) list" where
  "extract_filter_options l html =
     (case find_tag ''form'' (soup_of l html) of
        None \<Rightarrow> []
      | Some form \<Rightarrow> fold select_step (find_all [''select''] form) [])"

section \<open>Data frames\<close>

text \<open>
  A cell of a pandas frame: a string, \<open>None\<close>, an integer, the float of an integer, or
  the marker \<open>NaN\<close> that pandas puts where a row has no value for a column.
\<close>

datatype cell = NaN | PyNone | Str string | PyInt int | PyFloat int

text \<open>\<open>str(c)\<close> and the truth value of a cell (\<open>NaN\<close> is a non-zero float: true).\<close>

fun cell_str :: "lib \<Rightarrow> cell \<Rightarrow> string" where
  "cell_str l NaN = ''nan''"
| "cell_str l PyNone = ''None''"
| "cell_str l (Str s) = s"
| "cell_str l (PyInt n) = str_int n"
| "cell_str l (PyFloat n) = float_str l n"

fun truthy :: "cell \<Rightarrow> bool" where
  "truthy NaN = True"
| "truthy PyNone = False"
| "truthy (Str s) = (s \<noteq> [])"
| "truthy (PyInt n) = (n \<noteq> 0)"
| "truthy (PyFloat n) = (n \<noteq> 0)"

text \<open>A non-empty URL: a string that is not empty.\<close>

fun nonempty_url :: "cell \<Rightarrow> bool" where
  "nonempty_url (Str s) = (s \<noteq> [])"
| "nonempty_url NaN = False"
| "nonempty_url PyNone = False"
| "nonempty_url (PyInt n) = False"
| "nonempty_url (PyFloat n) = False"

text \<open>A string or \<open>NaN\<close>: what a cell of a column of strings can be.\<close>

fun url_cell :: "cell \<Rightarrow> bool" where
  "url_cell (Str s) = True"
| "url_cell NaN = True"
| "url_cell PyNone = False"
| "url_cell (PyInt n) = False"
| "url_cell (PyFloat n) = False"

text \<open>
  The column types pandas infers, as far as the cells of the model go: a column whose
  cells are all integers, floats or \<open>NaN\<close>, with a float or a \<open>NaN\<close> among them, is a
  \<open>float64\<close> column, and its integers become floats. Any other column keeps its cells.
\<close>

fun numeric :: "cell \<Rightarrow> bool" where
  "numeric NaN = True"
| "numeric (PyInt n) = True"
| "numeric (PyFloat n) = True"
| "numeric PyNone = False"
| "numeric (Str s) = False"

fun floating :: "cell \<Rightarrow> bool" where
  "floating NaN = True"
| "floating (PyFloat n) = True"
| "floating (PyInt n) = False"
| "floating PyNone = False"
| "floating (Str s) = False"

fun to_float :: "cell \<Rightarrow> cell" where
  "to_float (PyInt n) = PyFloat n"
| "to_float NaN = NaN"
| "to_float (PyFloat n) = PyFloat n"
| "to_float PyNone = PyNone"
| "to_float (Str s) = Str s"

definition float_column :: "cell list \<Rightarrow> bool" where
  "float_column cs = (list_all numeric cs \<and> list_ex floating cs)"

type_synonym pyrow = "(string \<times> cell) list"

text \<open>
  A frame is its column names and its rows, each row an association list over the
  columns. The number of rows is kept when there is no column.
\<close>

record dataframe =
  columns :: "string list"
  records :: "pyrow list"

definition first_seen :: "'a list \<Rightarrow> 'a list" where
  "first_seen xs = rev (remdups (rev xs))"

definition cell_of :: "pyrow \<Rightarrow> string \<Rightarrow> cell" where
  "cell_of r c = (case map_of r c of None \<Rightarrow> NaN | Some v \<Rightarrow> v)"

text \<open>
  \<open>pd.DataFrame(rows)\<close> of a list of dictionaries: the columns are the keys in the order
  they are first seen, a row without a key has \<open>NaN\<close> there, and the cells of a
  \<open>float64\<close> column are floats.
\<close>

definition frame_cell :: "pyrow list \<Rightarrow> pyrow \<Rightarrow> string \<Rightarrow> cell" where
  "frame_cell ds d c =
     (if float_column (map (\<lambda>d'. cell_of d' c) ds) then to_float (cell_of d c) else cell_of d c)"

definition DataFrame :: "pyrow list \<Rightarrow> dataframe" where
  "DataFrame ds =
     (let cols = first_seen (concat (map (map fst) ds))
      in \<lparr>columns = cols, records = map (\<lambda>d. map (\<lambda>c. (c, frame_cell ds d c)) cols) ds\<rparr>)"

text \<open>\<open>df.empty\<close>: no row or no column.\<close>

definition df_empty :: "dataframe \<Rightarrow> bool" where
  "df_empty df = (records df = [] \<or> columns df = [])"

text \<open>\<open>df[c]\<close> as a list, and \<open>df.get(c, pd.Series(dtype=str)).tolist()\<close>\<close>

definition column :: "dataframe \<Rightarrow> string \<Rightarrow> cell list" where
  "column df c = map (\<lambda>r. cell_of r c) (records df)"

definition df_get :: "dataframe \<Rightarrow> string \<Rightarrow> cell list" where
  "df_get df c = (if c \<in> set (columns df) then column df c else [])"

text \<open>\<open>df[c] = values\<close>, one value for each row; a new column goes last.\<close>

definition set_column :: "dataframe \<Rightarrow> string \<Rightarrow> cell list \<Rightarrow> dataframe" where
  "set_column df c vals =
     \<lparr>columns = (if c \<in> set (columns df) then columns df else columns df @ [c]),
      records = map (\<lambda>(r, v). AList.update c v r) (zip (records df) vals)\<rparr>"

section \<open>The results table of the listing page\<close>

definition BASE_URL :: string where
  "BASE_URL = ''https://pulepapp.mincultura.gov.co''"

definition EVENTS_PATH :: string where
  "EVENTS_PATH = ''/InformesPublicos/Eventos''"

definition EVENTS_GRID_PATH :: string where
  "EVENTS_GRID_PATH = ''/InformesPublicos/ObtenerEventos''"

text \<open>\<open>EVENT_DETAIL_PATH.format(evento_id=x)\<close>\<close>

definition EVENT_DETAIL_PATH :: "string \<Rightarrow> string" where
  "EVENT_DETAIL_PATH x = ''/InformesPublicos/EventoFichap/'' @ x"

text \<open>
  \<open>s.lower()\<close> on the code points below 256 (the capital letters are 65 to 90 and
  192 to 222 without 215), and \<open>sub in s\<close>.
\<close>

definition lower :: "string \<Rightarrow> string" where
  "lower s =
     map (\<lambda>c. let n = (of_char c :: nat)
              in if (65 \<le> n \<and> n \<le> 90) \<or> (192 \<le> n \<and> n \<le> 222 \<and> n \<noteq> 215)
                 then char_of (n + 32) else c) s"

fun py_in :: "string \<Rightarrow> string \<Rightarrow> bool" where
  "py_in sub [] = (sub = [])"
| "py_in sub (c # cs) = (take (length sub) (c # cs) = sub \<or> py_in sub cs)"

text \<open>
  \<open>headers = [h.get_text(" ", strip=True).lower() for h in table.find_all("th")]\<close>,
  \<open>any("evento" in h for h in headers)\<close>
\<close>

definition mentions_evento :: "node \<Rightarrow> bool" where
  "mentions_evento table =
     list_ex (\<lambda>h. py_in ''evento'' h)
       (map (\<lambda>h. lower (get_text '' '' h)) (find_all [''th''] table))"

definition find_results_table :: "node \<Rightarrow> node option" where
  "find_results_table soup =
     (case find_all [''table''] soup of
        [] \<Rightarrow> None
      | t0 # ts \<Rightarrow>
          (case List.find mentions_evento (t0 # ts) of
             Some t \<Rightarrow> Some t
           | None \<Rightarrow> Some t0))"

text \<open>\<open>headers[idx] if idx < len(headers) else f"col_{idx+1}"\<close>\<close>

definition column_name :: "string list \<Rightarrow> nat \<Rightarrow> string" where
  "column_name headers idx =
     (if idx < length headers then headers ! idx else ''col_'' @ str_nat (idx + 1))"

text \<open>The dictionary of one row that has cells.\<close>

definition row_dict :: "lib \<Rightarrow> string list \<Rightarrow> node \<Rightarrow> pyrow" where
  "row_dict l headers tr =
     (let row = map (get_text '' '') (find_all [''td''] tr);
          d = fold (\<lambda>(idx, v) d. AList.update (column_name headers idx) (Str v) d)
                (zip [0 ..< length row] row) []
      in AList.update ''detalle_url''
           (case find_a_href tr of
              None \<Rightarrow> Str []
            | Some href \<Rightarrow> Str (urljoin l BASE_URL href))
           d)"

text \<open>The frame read from the chosen table.\<close>

definition table_frame :: "lib \<Rightarrow> node \<Rightarrow> dataframe" where
  "table_frame l table =
     (let headers = map (get_text '' '')
            (case find_tag ''thead'' table of
               Some header_cells \<Rightarrow> find_all [''th''] header_cells
             | None \<Rightarrow> find_all [''th''] table);
          body = (case find_tag ''tbody'' table of Some b \<Rightarrow> b | None \<Rightarrow> table)
      in DataFrame
           (map (row_dict l headers)
              (filter (\<lambda>tr. find_all [''td''] tr \<noteq> []) (find_all [''tr''] body))))"

definition parse_events_table_soup :: "lib \<Rightarrow> node \<Rightarrow> dataframe" where
  "parse_events_table_soup l soup =
     (case find_results_table soup of
        None \<Rightarrow> DataFrame []
      | Some table \<Rightarrow> table_frame l table)"

definition parse_events_table :: "lib \<Rightarrow> string \<Rightarrow> dataframe" where
  "parse_events_table l html = parse_events_table_soup l (soup_of l html)"

section \<open>The session\<close>

text \<open>
  A request carries its URL, its parameters (query parameters of a GET, form data of a
  POST) and its timeout. The session, the network and the server behind it are a state
  \<open>'w\<close> and a function that answers a request in a state: \<open>Inl msg\<close> when the call
  raises a \<open>RequestException\<close> whose text is \<open>msg\<close>, and the next state.
\<close>

datatype request =
    GET string "(string \<times> string) list" nat
  | POST string "(string \<times> string) list" nat

type_synonym 'w net = "'w \<Rightarrow> request \<Rightarrow> (string + response) \<times> 'w"

datatype exc = RequestException string | ValueError

text \<open>\<open>ScraperConfig().timeout\<close>\<close>

definition timeout :: nat where
  "timeout = 40"

text \<open>\<open>response.raise_for_status()\<close>: the message of the error it raises, if any.\<close>

definition status_error :: "response \<Rightarrow> bool" where
  "status_error r = (400 \<le> status_code r \<and> status_code r < 600)"

definition raise_for_status :: "lib \<Rightarrow> response \<Rightarrow> string option" where
  "raise_for_status l r = (if status_error r then Some (http_error_msg l r) else None)"

text \<open>A request followed by \<open>raise_for_status()\<close>.\<close>

definition request_ok :: "lib \<Rightarrow> 'w net \<Rightarrow> 'w \<Rightarrow> request \<Rightarrow> (string + response) \<times> 'w" where
  "request_ok l send w rq =
     (case send w rq of
        (Inl msg, w') \<Rightarrow> (Inl msg, w')
      | (Inr r, w') \<Rightarrow>
          (case raise_for_status l r of
             Some msg \<Rightarrow> (Inl msg, w')
           | None \<Rightarrow> (Inr r, w')))"

definition get_events_page ::
  "lib \<Rightarrow> 'w net \<Rightarrow> 'w \<Rightarrow> dict \<Rightarrow> (exc + string) \<times> 'w" where
  "get_events_page l send w params =
     (case request_ok l send w (GET (urljoin l BASE_URL EVENTS_PATH) params timeout) of
        (Inl msg, w') \<Rightarrow> (Inl (RequestException msg), w')
      | (Inr r, w') \<Rightarrow> (Inr (resp_text r), w'))"

type_synonym grid_page = "jtotal option \<times> grid_row list option"

text \<open>The form data of a grid request.\<close>

definition grid_payload :: "int \<Rightarrow> int \<Rightarrow> dict" where
  "grid_payload page rows =
     [(''_search'', ''false''), (''nd'', ''0''), (''rows'', str_int rows),
      (''page'', str_int page), (''sidx'', []), (''sord'', ''asc'')]"

definition fetch_events_grid_page ::
  "lib \<Rightarrow> 'w net \<Rightarrow> 'w \<Rightarrow> dict \<Rightarrow> int \<Rightarrow> int \<Rightarrow> (exc + grid_page) \<times> 'w" where
  "fetch_events_grid_page l send w filters page rows =
     (case request_ok l send w (GET (urljoin l BASE_URL EVENTS_PATH) filters timeout) of
        (Inl msg, w1) \<Rightarrow> (Inl (RequestException msg), w1)
      | (Inr r0, w1) \<Rightarrow>
          let payload = grid_payload page rows
          in (case request_ok l send w1
                     (POST (urljoin l BASE_URL EVENTS_GRID_PATH) payload timeout) of
                (Inl msg, w2) \<Rightarrow> (Inl (RequestException msg), w2)
              | (Inr r, w2) \<Rightarrow>
                  (case json_loads l (resp_text r) of
                     None \<Rightarrow> (Inl ValueError, w2)
                   | Some JNonDict \<Rightarrow> (Inl ValueError, w2)
                   | Some (JDict t rs) \<Rightarrow> (Inr (t, rs), w2))))"

text \<open>
  What goes wrong on the wire when a grid page is requested, in the words of the
  specification: a transport failure (the call of the session raises, or the status of
  the answer is an error status) at the priming request or at the grid request, a body
  that is not JSON, or a body that is JSON but not an object. \<open>None\<close> when nothing goes
  wrong. The second component is the state after the last request made.
\<close>

datatype failure = Transport string | Malformed | NonObject

definition page_failure ::
  "lib \<Rightarrow> 'w net \<Rightarrow> 'w \<Rightarrow> dict \<Rightarrow> int \<Rightarrow> failure option \<times> 'w" where
  "page_failure l send w filters page =
     (case send w (GET (urljoin l BASE_URL EVENTS_PATH) filters timeout) of
        (Inl msg, w1) \<Rightarrow> (Some (Transport msg), w1)
      | (Inr r0, w1) \<Rightarrow>
          if status_error r0 then (Some (Transport (http_error_msg l r0)), w1)
          else
            (case send w1 (POST (urljoin l BASE_URL EVENTS_GRID_PATH)
                             (grid_payload page 100) timeout) of
               (Inl msg, w2) \<Rightarrow> (Some (Transport msg), w2)
             | (Inr r, w2) \<Rightarrow>
                 if status_error r then (Some (Transport (http_error_msg l r)), w2)
                 else
                   (case json_loads l (resp_text r) of
                      None \<Rightarrow> (Some Malformed, w2)
                    | Some JNonDict \<Rightarrow> (Some NonObject, w2)
                    | Some (JDict t rs) \<Rightarrow> (None, w2))))"

section \<open>The orchestrator\<close>

text \<open>
  \<open>_build_detail_url\<close>; the identifier is formatted into the path with \<open>str\<close>.
\<close>

definition build_detail_url :: "lib \<Rightarrow> cell \<Rightarrow> cell" where
  "build_detail_url l evento_id =
     (if evento_id = PyNone then Str []
      else Str (urljoin l BASE_URL (EVENT_DETAIL_PATH (cell_str l evento_id))))"

text \<open>\<open>int(first_page.get("total") or 0)\<close>\<close>

definition total_pages_of :: "lib \<Rightarrow> jtotal option \<Rightarrow> exc + int" where
  "total_pages_of l t =
     (case t of
        None \<Rightarrow> Inr 0
      | Some (TInt n) \<Rightarrow> Inr n
      | Some (TStr s) \<Rightarrow>
          if s = [] then Inr 0
          else (case py_int l s of None \<Rightarrow> Inl ValueError | Some n \<Rightarrow> Inr n))"

text \<open>\<open>page.get("rows") or []\<close>\<close>

definition rows_of :: "grid_row list option \<Rightarrow> grid_row list" where
  "rows_of rs = (case rs of None \<Rightarrow> [] | Some xs \<Rightarrow> xs)"

text \<open>The loop over the pages after the first; it stops at the first page that fails.\<close>

fun fetch_pages ::
  "lib \<Rightarrow> 'w net \<Rightarrow> 'w \<Rightarrow> dict \<Rightarrow> int list \<Rightarrow> grid_row list \<Rightarrow> (exc + grid_row list) \<times> 'w"
  where
  "fetch_pages l send w filters [] rows_data = (Inr rows_data, w)"
| "fetch_pages l send w filters (current_page # ps) rows_data =
     (case fetch_events_grid_page l send w filters current_page 100 of
        (Inl e, w') \<Rightarrow> (Inl e, w')
      | (Inr (t, rs), w') \<Rightarrow> fetch_pages l send w' filters ps (rows_data @ rows_of rs))"

text \<open>The grid rows as dictionaries of cells.\<close>

fun entry_cell :: "entry \<Rightarrow> string \<times> cell" where
  "entry_cell (Field k v) = (k, Str v)"
| "entry_cell (IntId n) = (''EventoId'', PyInt (sint n))"

definition row_cells :: "grid_row list \<Rightarrow> pyrow list" where
  "row_cells rows_data = map (map entry_cell) rows_data"

text \<open>\<open>row.get(key)\<close> of a grid row.\<close>

definition row_get :: "grid_row \<Rightarrow> string \<Rightarrow> cell option" where
  "row_get r k = map_of (map entry_cell r) k"

text \<open>The frame of the grid rows, with its \<open>detalle_url\<close> column.\<close>

definition grid_frame :: "lib \<Rightarrow> grid_row list \<Rightarrow> dataframe" where
  "grid_frame l rows_data =
     (let basic_df = DataFrame (row_cells rows_data)
      in if \<not> df_empty basic_df \<and> ''EventoId'' \<in> set (columns basic_df)
         then set_column basic_df ''detalle_url''
                (map (build_detail_url l) (column basic_df ''EventoId''))
         else if ''detalle_url'' \<notin> set (columns basic_df)
         then set_column basic_df ''detalle_url''
                (replicate (length (records basic_df)) (Str []))
         else basic_df)"

text \<open>
  The body of the \<open>try\<close>, first the rows of all the pages
  (\<open>range(2, total_pages + 1)\<close> is \<open>[2..total_pages]\<close>), then their frame.
\<close>

definition grid_rows ::
  "lib \<Rightarrow> 'w net \<Rightarrow> 'w \<Rightarrow> dict \<Rightarrow> (exc + grid_row list) \<times> 'w" where
  "grid_rows l send w filters =
     (case fetch_events_grid_page l send w filters 1 100 of
        (Inl e, w1) \<Rightarrow> (Inl e, w1)
      | (Inr (t, rs), w1) \<Rightarrow>
          (case total_pages_of l t of
             Inl e \<Rightarrow> (Inl e, w1)
           | Inr total_pages \<Rightarrow> fetch_pages l send w1 filters [2..total_pages] (rows_of rs)))"

definition grid_summary ::
  "lib \<Rightarrow> 'w net \<Rightarrow> 'w \<Rightarrow> dict \<Rightarrow> (exc + dataframe) \<times> 'w" where
  "grid_summary l send w filters =
     (case grid_rows l send w filters of
        (Inl e, w2) \<Rightarrow> (Inl e, w2)
      | (Inr rows_data, w2) \<Rightarrow> (Inr (grid_frame l rows_data), w2))"

text \<open>The handler of \<open>except (requests.RequestException, ValueError)\<close>.\<close>

definition fallback :: "lib \<Rightarrow> 'w net \<Rightarrow> 'w \<Rightarrow> dict \<Rightarrow> (exc + dataframe) \<times> 'w" where
  "fallback l send w filters =
     (case get_events_page l send w filters of
        (Inl e, w') \<Rightarrow> (Inl e, w')
      | (Inr html, w') \<Rightarrow> (Inr (parse_events_table l html), w'))"

definition fetch_summary ::
  "lib \<Rightarrow> 'w net \<Rightarrow> 'w \<Rightarrow> dict \<Rightarrow> (exc + dataframe) \<times> 'w" where
  "fetch_summary l send w filters =
     (case grid_summary l send w filters of
        (Inr basic_df, w1) \<Rightarrow> (Inr basic_df, w1)
      | (Inl (RequestException msg), w1) \<Rightarrow> fallback l send w1 filters
      | (Inl ValueError, w1) \<Rightarrow> fallback l send w1 filters)"

text \<open>\<open>links[:n]\<close>\<close>

definition slice_to :: "int \<Rightarrow> 'a list \<Rightarrow> 'a list" where
  "slice_to n xs = (if 0 \<le> n then take (nat n) xs else take (length xs - nat (- n)) xs)"

text \<open>The body of the loop over the links: the record of one link.\<close>

definition detail_step :: "lib \<Rightarrow> 'w net \<Rightarrow> 'w \<Rightarrow> nat \<Rightarrow> cell \<Rightarrow> pyrow \<times> 'w" where
  "detail_step l send w idx url =
     (case request_ok l send w (GET (cell_str l url) [] timeout) of
        (Inl msg, w') \<Rightarrow>
          ([(''detalle_url'', url), (''error'', Str msg), (''indice'', Str (str_nat idx))], w')
      | (Inr r, w') \<Rightarrow>
          let detail = map (\<lambda>(k, v). (k, Str v)) (parse_event_detail l (resp_text r));
              detail = AList.update ''detalle_url'' url detail;
              detail = AList.update ''indice'' (Str (str_nat idx)) detail
          in (detail, w'))"

fun fetch_details ::
  "lib \<Rightarrow> 'w net \<Rightarrow> 'w \<Rightarrow> nat \<Rightarrow> cell list \<Rightarrow> pyrow list \<times> 'w" where
  "fetch_details l send w idx [] = ([], w)"
| "fetch_details l send w idx (url # links) =
     (case detail_step l send w idx url of
        (r, w1) \<Rightarrow>
          (case fetch_details l send w1 (Suc idx) links of
             (detail_rows, w2) \<Rightarrow> (r # detail_rows, w2)))"

text \<open>The links of a summary: the true cells of its \<open>detalle_url\<close> column, up to the cap.\<close>

definition detail_links :: "dataframe \<Rightarrow> int option \<Rightarrow> cell list" where
  "detail_links basic_df max_details =
     (let links = filter truthy (df_get basic_df ''detalle_url'')
      in case max_details of None \<Rightarrow> links | Some n \<Rightarrow> slice_to n links)"

definition scrape_events ::
  "lib \<Rightarrow> 'w net \<Rightarrow> 'w \<Rightarrow> dict \<Rightarrow> bool \<Rightarrow> int option \<Rightarrow> (exc + dataframe \<times> dataframe) \<times> 'w" where
  "scrape_events l send w filters include_details max_details =
     (case fetch_summary l send w filters of
        (Inl e, w1) \<Rightarrow> (Inl e, w1)
      | (Inr basic_df, w1) \<Rightarrow>
          if \<not> include_details \<or> df_empty basic_df then (Inr (basic_df, DataFrame []), w1)
          else
            (case fetch_details l send w1 1 (detail_links basic_df max_details) of
               (detail_rows, w2) \<Rightarrow> (Inr (basic_df, DataFrame detail_rows), w2)))"

section \<open>A small site for the examples\<close>

text \<open>
  The documents of the examples are given as trees; the library functions are fixed on
  the strings the examples use. On its arguments here (a host and an absolute path
  without dot segments) \<open>urljoin\<close> puts the path after the host.
\<close>

definition td :: "string \<Rightarrow> node" where
  "td s = Tag ''td'' [] [NavigableString s]"

definition th :: "string \<Rightarrow> node" where
  "th s = Tag ''th'' [] [NavigableString s]"

definition document :: "node list \<Rightarrow> node" where
  "document cs = Tag ''[document]'' [] cs"

text \<open>A detail page: a table row and a label that both give \<open>Nombre\<close>.\<close>

definition row_1 :: node where
  "row_1 = Tag ''tr'' [] [th ''Nombre'', td ''Feria A'']"

definition row_2 :: node where
  "row_2 = Tag ''tr'' [] [th ''Nombre'', td '' Feria A2 '']"

definition row_3 :: node where
  "row_3 = Tag ''tr'' [] [th [], td ''sin clave'']"

definition detail_doc :: node where
  "detail_doc = document
     [Tag ''table'' [] [row_1, row_2, row_3],
      Tag ''p'' []
        [Tag ''b'' [] [NavigableString ''Nombre:''], NavigableString '' Otra feria '',
         Tag ''b'' [] [NavigableString ''Lugar:''], NavigableString '' Bogota '']]"

text \<open>A page with text only.\<close>

definition plain_doc :: node where
  "plain_doc = document [Tag ''p'' [] [NavigableString '' sin datos '']]"

text \<open>A table nested in a cell of the first row of another table.\<close>

definition row_a :: node where
  "row_a = Tag ''tr'' [] [td ''k'', td ''a'']"

definition row_b :: node where
  "row_b = Tag ''tr'' [] [td ''k'', td ''b'']"

definition row_x :: node where
  "row_x = Tag ''tr'' [] [td ''x'', Tag ''td'' [] [Tag ''table'' [] [row_a]]]"

definition nested_doc :: node where
  "nested_doc = document [Tag ''table'' [] [row_x, row_b]]"

text \<open>A filter form with one select.\<close>

definition opt_todos :: node where
  "opt_todos = Tag ''option'' [(''value'', [])] [NavigableString ''Todos'']"

definition opt_2024 :: node where
  "opt_2024 = Tag ''option'' [(''value'', ''2024'')] [NavigableString ''A2024'']"

definition opt_11 :: node where
  "opt_11 = Tag ''option'' [(''value'', ''11'')] []"

definition sel_anio :: node where
  "sel_anio = Tag ''select'' [(''name'', ''anio'')] [opt_todos, opt_2024, opt_11]"

definition sel_anon :: node where
  "sel_anon = Tag ''select'' [] [Tag ''option'' [(''value'', ''1'')] [NavigableString ''uno'']]"

definition the_form :: node where
  "the_form = Tag ''form'' [] [sel_anio, sel_anon]"

definition form_doc :: node where
  "form_doc = document [the_form]"

text \<open>A listing page: the second table is the one whose header mentions the events.\<close>

definition table_menu :: node where
  "table_menu = Tag ''table'' [] [Tag ''tr'' [] [td ''menu'']]"

definition table_events :: node where
  "table_events =
     Tag ''table'' []
       [Tag ''thead'' [] [Tag ''tr'' [] [th ''Nombre del Evento'']],
        Tag ''tbody'' []
          [Tag ''tr'' []
             [Tag ''td'' []
                [Tag ''a'' [(''href'', ''/InformesPublicos/EventoFichap/7'')]
                   [NavigableString ''Feria C'']]]]]"

definition listing_doc :: node where
  "listing_doc = document [table_menu, table_events]"

text \<open>A page whose only table has no header.\<close>

definition menu_doc :: node where
  "menu_doc = document [table_menu]"

text \<open>Two grid rows: one with an identifier, one with only a link of its own.\<close>

definition mixed_rows :: "grid_row list" where
  "mixed_rows =
     [[Field ''EventoId'' ''5'', Field ''detalle_url'' ''http://a/1''],
      [Field ''detalle_url'' ''http://a/2'']]"

text \<open>Grid rows without identifier: with a link of their own, and without any.\<close>

definition link_rows :: "grid_row list" where
  "link_rows = [[Field ''Nombre'' ''Feria D'', Field ''detalle_url'' ''http://a/4'']]"

definition bare_rows :: "grid_row list" where
  "bare_rows = [[Field ''Nombre'' ''Feria E'']]"

text \<open>Grid rows without identifier, the first without link, the second with one.\<close>

definition nan_rows :: "grid_row list" where
  "nan_rows =
     [[Field ''Nombre'' ''Feria F''],
      [Field ''Nombre'' ''Feria D'', Field ''detalle_url'' ''http://a/4'']]"

text \<open>Grid rows with integer identifiers.\<close>

definition int_rows :: "grid_row list" where
  "int_rows = [[IntId 5, Field ''Nombre'' ''Feria A''], [IntId 6, Field ''Nombre'' ''Feria B'']]"

definition site_lib :: lib where
  "site_lib =
     \<lparr>urljoin = (\<lambda>base u. base @ u),
      soup_of = (\<lambda>html.
        if html = ''DETAIL'' then detail_doc
        else if html = ''PLAIN'' then plain_doc
        else if html = ''FORM'' then form_doc
        else if html = ''LISTING'' then listing_doc
        else if html = ''MENU'' then menu_doc
        else document [NavigableString html]),
      node_str = (\<lambda>n. case n of NavigableString s \<Rightarrow> s | Comment s \<Rightarrow> s | Tag nm a cs \<Rightarrow> []),
      json_loads = (\<lambda>s.
        if s = ''P1'' then
          Some (JDict (Some (TInt 2))
                  (Some [[Field ''EventoId'' ''5'', Field ''Nombre'' ''Feria A'']]))
        else if s = ''P2'' then
          Some (JDict (Some (TInt 2))
                  (Some [[Field ''EventoId'' ''6'', Field ''Nombre'' ''Feria B'']]))
        else if s = ''MIXED'' then Some (JDict (Some (TInt 1)) (Some mixed_rows))
        else if s = ''LINKS'' then Some (JDict (Some (TInt 1)) (Some link_rows))
        else if s = ''BARE'' then Some (JDict None (Some bare_rows))
        else if s = ''NANROWS'' then Some (JDict (Some (TInt 1)) (Some nan_rows))
        else if s = ''INTS'' then Some (JDict (Some (TInt 1)) (Some int_rows))
        else if s = ''[1, 2]'' then Some JNonDict
        else None),
      http_error_msg = (\<lambda>r. ''HTTP error''),
      py_int = (\<lambda>s. None),
      float_str = (\<lambda>n. str_int n @ ''.0'')\<rparr>"

text \<open>
  The servers. The state counts the requests answered. The listing page and the detail
  pages of events 5 and 7 are served; any other page times out. The server \<open>site\<close>
  serves the first page of the grid, and the second one only to a session that starts at
  100 or later. The server \<open>one_page\<close> gives one and the same answer to every grid
  request.
\<close>

definition ok :: "string \<Rightarrow> response" where
  "ok s = \<lparr>status_code = 200, resp_text = s\<rparr>"

definition site_get :: "nat \<Rightarrow> string \<Rightarrow> (string + response) \<times> nat" where
  "site_get w url =
     (if url = BASE_URL @ EVENTS_PATH then (Inr (ok ''LISTING''), Suc w)
      else if url = BASE_URL @ EVENT_DETAIL_PATH ''5'' then (Inr (ok ''DETAIL''), Suc w)
      else if url = BASE_URL @ EVENT_DETAIL_PATH ''7'' then (Inr (ok ''PLAIN''), Suc w)
      else (Inl ''timed out'', Suc w))"

fun site :: "nat net" where
  "site w (GET url params t) = site_get w url"
| "site w (POST url payload t) =
     (if map_of payload ''page'' = Some ''1'' then (Inr (ok ''P1''), Suc w)
      else if map_of payload ''page'' = Some ''2'' \<and> 100 \<le> w then (Inr (ok ''P2''), Suc w)
      else (Inl ''timed out'', Suc w))"

fun one_page :: "string + response \<Rightarrow> nat net" where
  "one_page answer w (GET url params t) = site_get w url"
| "one_page answer w (POST url payload t) = (answer, Suc w)"


definition url_5 :: string where
  "url_5 = ''https://pulepapp.mincultura.gov.co/InformesPublicos/EventoFichap/5''"

definition url_6 :: string where
  "url_6 = ''https://pulepapp.mincultura.gov.co/InformesPublicos/EventoFichap/6''"

definition summary_two :: dataframe where
  "summary_two =
     \<lparr>columns = [''EventoId'', ''Nombre'', ''detalle_url''],
      records =
        [[(''EventoId'', Str ''5''), (''Nombre'', Str ''Feria A''), (''detalle_url'', Str url_5)],
         [(''EventoId'', Str ''6''), (''Nombre'', Str ''Feria B''), (''detalle_url'', Str url_6)]]\<rparr>"

definition details_one :: dataframe where
  "details_one =
     \<lparr>columns = [''Nombre'', ''Lugar'', ''detalle_url'', ''indice''],
      records =
        [[(''Nombre'', Str ''Feria A2''), (''Lugar'', Str ''Bogota''),
          (''detalle_url'', Str url_5), (''indice'', Str ''1'')]]\<rparr>"

definition details_two :: dataframe where
  "details_two =
     \<lparr>columns = [''Nombre'', ''Lugar'', ''detalle_url'', ''indice'', ''error''],
      records =
        [[(''Nombre'', Str ''Feria A2''), (''Lugar'', Str ''Bogota''),
          (''detalle_url'', Str url_5), (''indice'', Str ''1''), (''error'', NaN)],
         [(''Nombre'', NaN), (''Lugar'', NaN),
          (''detalle_url'', Str url_6), (''indice'', Str ''2''),
          (''error'', Str ''timed out'')]]\<rparr>"

text \<open>The frames of a grid whose first row has no link and whose second row has one.\<close>

definition nan_summary :: dataframe where
  "nan_summary =
     \<lparr>columns = [''Nombre'', ''detalle_url''],
      records =
        [[(''Nombre'', Str ''Feria F''), (''detalle_url'', NaN)],
         [(''Nombre'', Str ''Feria D''), (''detalle_url'', Str ''http://a/4'')]]\<rparr>"

definition nan_details :: dataframe where
  "nan_details =
     \<lparr>columns = [''detalle_url'', ''error'', ''indice''],
      records =
        [[(''detalle_url'', NaN), (''error'', Str ''timed out''), (''indice'', Str ''1'')],
         [(''detalle_url'', Str ''http://a/4''), (''error'', Str ''timed out''),
          (''indice'', Str ''2'')]]\<rparr>"

section \<open>The detail page: results\<close>

lemma label_step_keeps:
  "map_of data k = Some v \<Longrightarrow> map_of (label_step l p data) k = Some v"
  by (auto simp: label_step_def Let_def update_conv' dest: weak_map_of_SomeI map_of_SomeD
      intro: rev_image_eqI)

lemma fold_label_step_keeps:
  "map_of data k = Some v \<Longrightarrow> map_of (fold (label_step l) ps data) k = Some v"
  by (induction ps arbitrary: data) (simp_all add: label_step_keeps)

lemma label_strategy_keeps:
  "map_of data k = Some v \<Longrightarrow> map_of (label_strategy l soup data) k = Some v"
  by (simp add: label_strategy_def fold_label_step_keeps)

text \<open>
  C4. \<open>parse_event_detail\<close> never returns an empty dictionary, and when neither the
  table strategy nor the label strategy yields a pair, the result is the single field
  \<open>contenido\<close> holding the plain text of the whole page.
\<close>

theorem parse_event_detail_nonempty:
  "parse_event_detail l html \<noteq> [] \<and>
   (table_strategy (soup_of l html) [] = [] \<and> label_strategy l (soup_of l html) [] = [] \<longrightarrow>
      parse_event_detail l html = [(''contenido'', get_text '' '' (soup_of l html))])"
  by (simp add: parse_event_detail_def parse_event_detail_soup_def Let_def)

theorem parse_event_detail_nonempty_witness:
  "table_strategy (soup_of site_lib ''PLAIN'') [] = [] \<and>
   label_strategy site_lib (soup_of site_lib ''PLAIN'') [] = [] \<and>
   parse_event_detail site_lib ''PLAIN'' = [(''contenido'', ''sin datos'')]"
proof -
  have t: "table_strategy (soup_of site_lib ''PLAIN'') [] = []"
    by code_simp
  have b: "label_strategy site_lib (soup_of site_lib ''PLAIN'') [] = []"
    by code_simp
  have g: "get_text '' '' (soup_of site_lib ''PLAIN'') = ''sin datos''"
    by code_simp
  from parse_event_detail_nonempty [of site_lib "''PLAIN''"] t b g show ?thesis
    by simp
qed

text \<open>
  C6. When the table strategy and the label strategy both produce a pair for a key, the
  result of \<open>parse_event_detail\<close> has the value of the table strategy there.
\<close>

theorem table_strategy_precedence:
  assumes "map_of (table_strategy (soup_of l html) []) k = Some v"
    and "map_of (label_strategy l (soup_of l html) []) k = Some v'"
  shows "map_of (parse_event_detail l html) k = Some v"
proof -
  let ?d = "label_strategy l (soup_of l html) (table_strategy (soup_of l html) [])"
  have m: "map_of ?d k = Some v"
    using assms(1) by (rule label_strategy_keeps)
  then have "?d \<noteq> []"
    by auto
  with m show ?thesis
    by (simp add: parse_event_detail_def parse_event_detail_soup_def)
qed

theorem table_strategy_precedence_witness:
  "map_of (table_strategy (soup_of site_lib ''DETAIL'') []) ''Nombre'' = Some ''Feria A2'' \<and>
   map_of (label_strategy site_lib (soup_of site_lib ''DETAIL'') []) ''Nombre'' = Some ''Otra feria'' \<and>
   map_of (parse_event_detail site_lib ''DETAIL'') ''Nombre'' = Some ''Feria A2''"
proof -
  have t: "map_of (table_strategy (soup_of site_lib ''DETAIL'') []) ''Nombre'' = Some ''Feria A2''"
    by code_simp
  have b: "map_of (label_strategy site_lib (soup_of site_lib ''DETAIL'') []) ''Nombre''
             = Some ''Otra feria''"
    by code_simp
  from table_strategy_precedence [OF t b] t b show ?thesis
    by simp
qed

lemma table_step_skip: "first_cell_text tr = Some [] \<Longrightarrow> table_step tr data = data"
  by (auto simp: first_cell_text_def table_step_def row_pair_def split: list.splits)

lemma fold_table_step_filter:
  "fold table_step rs data =
   fold table_step (filter (\<lambda>tr. first_cell_text tr \<noteq> Some []) rs) data"
  by (induction rs arbitrary: data) (simp_all add: table_step_skip)

lemma table_step_other:
  "\<forall>v'. row_pair tr \<noteq> Some (k, v') \<Longrightarrow> map_of (table_step tr data) k = map_of data k"
  by (auto simp: table_step_def update_conv' split: option.splits)

lemma fold_table_step_other:
  "\<forall>r \<in> set rs. \<forall>v'. row_pair r \<noteq> Some (k, v') \<Longrightarrow>
   map_of (fold table_step rs data) k = map_of data k"
  by (induction rs arbitrary: data) (simp_all add: table_step_other)

lemma table_step_hit:
  "row_pair tr = Some (k, v) \<Longrightarrow> k \<noteq> [] \<Longrightarrow> map_of (table_step tr data) k = Some v"
  by (simp add: table_step_def update_conv')

lemma descendants_Tag: "descendants (Tag n a cs) = map fst (elements_list cs)"
  by (simp add: descendants_def)

lemma elements_list_Cons:
  "map fst (elements_list (c # cs)) = c # descendants c @ map fst (elements_list cs)"
  by (simp add: descendants_def)

lemma not_both: "is_tag [''table''] c \<Longrightarrow> \<not> is_tag [''tr''] c"
  by (cases c) auto

lemma rows_in_document_order_aux:
  "(\<forall>t \<in> set (filter (is_tag [''table'']) (map fst (elements n))). find_all [''table''] t = []) \<longrightarrow>
     subseq (visits (map fst (elements n))) (filter (is_tag [''tr'']) (map fst (elements n)))"
  "(\<forall>t \<in> set (filter (is_tag [''table'']) (map fst (elements_list cs))). find_all [''table''] t = []) \<longrightarrow>
     subseq (visits (map fst (elements_list cs))) (filter (is_tag [''tr'']) (map fst (elements_list cs)))"
proof (induction n and cs rule: elements_elements_list.induct)
  case (1 n a cs)
  then show ?case by simp
next
  case (2 s)
  then show ?case by (simp add: visits_def)
next
  case (3 s)
  then show ?case by (simp add: visits_def)
next
  case 4
  then show ?case by (simp add: visits_def)
next
  case (5 c cs)
  let ?dc = "map fst (elements c)" and ?dcs = "map fst (elements_list cs)"
  show ?case
  proof
    assume h: "\<forall>t \<in> set (filter (is_tag [''table'']) (map fst (elements_list (c # cs)))).
                 find_all [''table''] t = []"
    then have hc: "\<forall>t \<in> set (filter (is_tag [''table'']) ?dc). find_all [''table''] t = []"
      and hcs: "\<forall>t \<in> set (filter (is_tag [''table'']) ?dcs). find_all [''table''] t = []"
      by auto
    from 5 hc hcs have ic: "subseq (visits ?dc) (filter (is_tag [''tr'']) ?dc)"
      and ics: "subseq (visits ?dcs) (filter (is_tag [''tr'']) ?dcs)"
      by blast+
    show "subseq (visits (map fst (elements_list (c # cs))))
            (filter (is_tag [''tr'']) (map fst (elements_list (c # cs))))"
    proof (cases "is_tag [''table''] c")
      case True
      with h have "find_all [''table''] c = []" by simp
      then have nc: "filter (is_tag [''table'']) ?dc = []"
        by (simp add: find_all_def descendants_def)
      have v: "visits (map fst (elements_list (c # cs))) = filter (is_tag [''tr'']) ?dc @ visits ?dcs"
        using True nc by (simp add: visits_def find_all_def descendants_def)
      have f: "filter (is_tag [''tr'']) (map fst (elements_list (c # cs)))
                 = filter (is_tag [''tr'']) ?dc @ filter (is_tag [''tr'']) ?dcs"
        using not_both [OF True] by simp
      show ?thesis unfolding v f using ics by (simp add: subseq_append')
    next
      case False
      then have v: "visits (map fst (elements_list (c # cs))) = visits ?dc @ visits ?dcs"
        by (simp add: visits_def)
      have "subseq (visits ?dc @ visits ?dcs)
              (filter (is_tag [''tr'']) ?dc @ filter (is_tag [''tr'']) ?dcs)"
        using ic ics by (rule list_emb_append_mono)
      then show ?thesis unfolding v by (auto intro: list_emb_Cons)
    qed
  qed
qed

lemma rows_in_document_order:
  "\<forall>t \<in> set (find_all [''table''] soup). find_all [''table''] t = [] \<Longrightarrow>
   subseq (table_rows soup) (find_all [''tr''] soup)"
  using rows_in_document_order_aux(1) [of soup]
  by (simp add: table_rows_def find_all_def descendants_def visits_def)

text \<open>
  C10, as the code has it. The table strategy visits the rows table by table
  (\<open>table_rows\<close>: the tables in document order, and for each table every row below it,
  so that a row of a nested table is visited again at the turn of the nested table).
  When a visit yields a non-empty key and no later visit yields the same key, its value is
  the one in the result: the last visit wins. A row whose first cell has empty text
  contributes nothing: the result is the same with such rows left out. When no table lies
  within another table, the visits follow the document order of the rows.
\<close>

theorem table_strategy_last_visit_wins:
  "(table_rows soup = pre @ r # post \<longrightarrow> row_pair r = Some (k, v) \<longrightarrow> k \<noteq> [] \<longrightarrow>
      (\<forall>r' \<in> set post. \<forall>v'. row_pair r' \<noteq> Some (k, v')) \<longrightarrow>
      map_of (table_strategy soup []) k = Some v) \<and>
   table_strategy soup data =
     fold table_step (filter (\<lambda>tr. first_cell_text tr \<noteq> Some []) (table_rows soup)) data \<and>
   ((\<forall>t \<in> set (find_all [''table''] soup). find_all [''table''] t = []) \<longrightarrow>
      subseq (table_rows soup) (find_all [''tr''] soup))"
proof (intro conjI)
  show "(\<forall>t \<in> set (find_all [''table''] soup). find_all [''table''] t = []) \<longrightarrow>
      subseq (table_rows soup) (find_all [''tr''] soup)"
    using rows_in_document_order by blast
  show "table_rows soup = pre @ r # post \<longrightarrow> row_pair r = Some (k, v) \<longrightarrow> k \<noteq> [] \<longrightarrow>
      (\<forall>r' \<in> set post. \<forall>v'. row_pair r' \<noteq> Some (k, v')) \<longrightarrow>
      map_of (table_strategy soup []) k = Some v"
    by (simp add: table_strategy_def fold_table_step_other table_step_hit)
  show "table_strategy soup data =
     fold table_step (filter (\<lambda>tr. first_cell_text tr \<noteq> Some []) (table_rows soup)) data"
    unfolding table_strategy_def by (rule fold_table_step_filter)
qed

theorem table_strategy_last_visit_wins_witness:
  "table_rows detail_doc = [row_1] @ row_2 # [row_3] \<and>
   row_pair row_2 = Some (''Nombre'', ''Feria A2'') \<and>
   row_pair row_3 = Some ([], ''sin clave'') \<and>
   map_of (table_strategy detail_doc []) ''Nombre'' = Some ''Feria A2'' \<and>
   table_strategy detail_doc [] = fold table_step [row_1, row_2] [] \<and>
   find_all [''tr''] detail_doc = [row_1, row_2, row_3] \<and>
   subseq (table_rows detail_doc) (find_all [''tr''] detail_doc)"
proof -
  have trs: "find_all [''tr''] detail_doc = [row_1, row_2, row_3]"
    by code_simp
  have flat: "\<forall>t \<in> set (find_all [''table''] detail_doc). find_all [''table''] t = []"
    by code_simp
  have rows: "table_rows detail_doc = [row_1] @ row_2 # [row_3]"
    by code_simp
  have p2: "row_pair row_2 = Some (''Nombre'', ''Feria A2'')"
    by code_simp
  have p3: "row_pair row_3 = Some ([], ''sin clave'')"
    by code_simp
  have post: "\<forall>r' \<in> set [row_3]. \<forall>v'. row_pair r' \<noteq> Some (''Nombre'', v')"
    by (simp add: p3)
  have f: "filter (\<lambda>tr. first_cell_text tr \<noteq> Some []) ([row_1] @ row_2 # [row_3]) = [row_1, row_2]"
    by code_simp
  note T = table_strategy_last_visit_wins
         [of detail_doc "[row_1]" row_2 "[row_3]" "''Nombre''" "''Feria A2''" "[]"]
  have a: "map_of (table_strategy detail_doc []) ''Nombre'' = Some ''Feria A2''"
    using T rows p2 post by blast
  have b: "table_strategy detail_doc [] = fold table_step [row_1, row_2] []"
    using T [THEN conjunct2, THEN conjunct1] by (simp only: rows f)
  have c: "subseq (table_rows detail_doc) (find_all [''tr''] detail_doc)"
    using T [THEN conjunct2, THEN conjunct2] flat by blast
  from rows p2 p3 a b trs c show ?thesis
    by blast
qed

theorem later_row_counterexample:
  "find_all [''tr''] nested_doc = [row_x, row_a, row_b] \<and>
   row_pair row_a = Some (''k'', ''a'') \<and>
   row_pair row_b = Some (''k'', ''b'') \<and>
   map_of (table_strategy nested_doc []) ''k'' = Some ''a'' \<and>
   map_of (table_strategy nested_doc []) ''k'' \<noteq> Some ''b''"
  by code_simp

section \<open>The listing page and the filter form: results\<close>


lemma py_in_iff: "py_in sub s \<longleftrightarrow> (\<exists>a b. s = a @ sub @ b)"
proof (induction s)
  case Nil
  then show ?case by auto
next
  case (Cons c cs)
  show ?case
  proof
    assume "py_in sub (c # cs)"
    then consider "take (length sub) (c # cs) = sub" | "py_in sub cs" by auto
    then show "\<exists>a b. c # cs = a @ sub @ b"
    proof cases
      case 1
      then have "c # cs = [] @ sub @ drop (length sub) (c # cs)"
        by (metis append_Nil append_take_drop_id)
      then show ?thesis by blast
    next
      case 2
      with Cons.IH obtain a b where "cs = a @ sub @ b" by blast
      then have "c # cs = (c # a) @ sub @ b" by simp
      then show ?thesis by blast
    qed
  next
    assume "\<exists>a b. c # cs = a @ sub @ b"
    then obtain a b where ab: "c # cs = a @ sub @ b" by blast
    show "py_in sub (c # cs)"
    proof (cases a)
      case Nil
      with ab have "take (length sub) (c # cs) = sub" by simp
      then show ?thesis by simp
    next
      case (Cons a0 as)
      with ab have "cs = as @ sub @ b" by simp
      with Cons.IH have "py_in sub cs" by blast
      then show ?thesis by simp
    qed
  qed
qed

lemma mentions_evento_iff:
  "mentions_evento t \<longleftrightarrow>
   (\<exists>h \<in> set (find_all [''th''] t). \<exists>a b. lower (get_text '' '' h) = a @ ''evento'' @ b)"
  by (simp add: mentions_evento_def list_ex_iff py_in_iff)

lemma find_first:
  "P t \<Longrightarrow> \<forall>x \<in> set pre. \<not> P x \<Longrightarrow> List.find P (pre @ t # post) = Some t"
  by (induction pre) auto

text \<open>
  C8. \<open>parse_events_table\<close> reads the first table one of whose header cells has a text
  that contains \<open>evento\<close> once lowered; when no table has such a header it reads the
  first table; and when the document has no table it returns the empty frame.
\<close>

theorem parse_events_table_choice:
  "(find_all [''table''] (soup_of l html) = [] \<longrightarrow>
      parse_events_table l html = DataFrame [] \<and> df_empty (parse_events_table l html)) \<and>
   (find_all [''table''] (soup_of l html) = pre @ t # post \<longrightarrow> mentions_evento t \<longrightarrow>
      (\<forall>t' \<in> set pre. \<not> mentions_evento t') \<longrightarrow>
      find_results_table (soup_of l html) = Some t \<and> parse_events_table l html = table_frame l t) \<and>
   (find_all [''table''] (soup_of l html) = t0 # ts \<longrightarrow>
      (\<forall>t' \<in> set (t0 # ts). \<not> mentions_evento t') \<longrightarrow>
      find_results_table (soup_of l html) = Some t0 \<and> parse_events_table l html = table_frame l t0) \<and>
   (mentions_evento t \<longleftrightarrow>
      (\<exists>h \<in> set (find_all [''th''] t). \<exists>a b. lower (get_text '' '' h) = a @ ''evento'' @ b))"
proof (intro conjI impI)
  assume "find_all [''table''] (soup_of l html) = []"
  then show "parse_events_table l html = DataFrame []"
    by (simp add: parse_events_table_def parse_events_table_soup_def find_results_table_def)
  then show "df_empty (parse_events_table l html)"
    by (simp add: df_empty_def DataFrame_def)
next
  assume a: "find_all [''table''] (soup_of l html) = pre @ t # post" "mentions_evento t"
    "\<forall>t' \<in> set pre. \<not> mentions_evento t'"
  then have f: "List.find mentions_evento (pre @ t # post) = Some t"
    by (simp add: find_first)
  show r: "find_results_table (soup_of l html) = Some t"
    using a(1) f by (cases pre) (simp_all add: find_results_table_def)
  then show "parse_events_table l html = table_frame l t"
    by (simp add: parse_events_table_def parse_events_table_soup_def)
next
  assume a: "find_all [''table''] (soup_of l html) = t0 # ts"
    "\<forall>t' \<in> set (t0 # ts). \<not> mentions_evento t'"
  then have f: "List.find mentions_evento (t0 # ts) = None"
    by (simp add: find_None_iff)
  show r: "find_results_table (soup_of l html) = Some t0"
    using a(1) f by (simp add: find_results_table_def)
  then show "parse_events_table l html = table_frame l t0"
    by (simp add: parse_events_table_def parse_events_table_soup_def)
next
  show "mentions_evento t \<longleftrightarrow>
      (\<exists>h \<in> set (find_all [''th''] t). \<exists>a b. lower (get_text '' '' h) = a @ ''evento'' @ b)"
    by (rule mentions_evento_iff)
qed

theorem parse_events_table_choice_witness:
  "parse_events_table site_lib ''PLAIN'' = DataFrame [] \<and>
   find_results_table (soup_of site_lib ''LISTING'') = Some table_events \<and>
   parse_events_table site_lib ''LISTING'' = table_frame site_lib table_events \<and>
   find_results_table (soup_of site_lib ''MENU'') = Some table_menu \<and>
   parse_events_table site_lib ''MENU'' = table_frame site_lib table_menu"
proof -
  have n: "find_all [''table''] (soup_of site_lib ''PLAIN'') = []"
    by code_simp
  have ts: "find_all [''table''] (soup_of site_lib ''LISTING'') = [table_menu] @ table_events # []"
    by code_simp
  have m: "mentions_evento table_events"
    by code_simp
  have nm: "\<not> mentions_evento table_menu"
    by code_simp
  have ms: "find_all [''table''] (soup_of site_lib ''MENU'') = table_menu # []"
    by code_simp
  have a: "parse_events_table site_lib ''PLAIN'' = DataFrame []"
    using parse_events_table_choice [of site_lib "''PLAIN''"] n by blast
  have b: "find_results_table (soup_of site_lib ''LISTING'') = Some table_events \<and>
           parse_events_table site_lib ''LISTING'' = table_frame site_lib table_events"
    using parse_events_table_choice [of site_lib "''LISTING''" "[table_menu]" table_events "[]"]
      ts m nm by simp
  have c: "find_results_table (soup_of site_lib ''MENU'') = Some table_menu \<and>
           parse_events_table site_lib ''MENU'' = table_frame site_lib table_menu"
    using parse_events_table_choice [of site_lib "''MENU''" _ _ _ table_menu "[]"]
      ms nm by simp
  from a b c show ?thesis
    by blast
qed

lemma option_step_other:
  "or_str (option_label opt) (option_value opt) \<noteq> k \<Longrightarrow>
   map_of (option_step opt options) k = map_of options k"
  by (simp add: option_step_def Let_def update_conv')

lemma fold_option_step_other:
  "\<forall>o' \<in> set os. or_str (option_label o') (option_value o') \<noteq> k \<Longrightarrow>
   map_of (fold option_step os options) k = map_of options k"
  by (induction os arbitrary: options) (simp_all add: option_step_other)

lemma option_step_hit:
  "option_label opt \<noteq> [] \<or> option_value opt \<noteq> [] \<Longrightarrow>
   map_of (option_step opt options) (or_str (option_label opt) (option_value opt))
     = Some (option_value opt)"
  by (auto simp: option_step_def Let_def update_conv')

lemma select_options_last:
  assumes "find_all [''option''] sel = opre @ opt # opost"
    and "option_label opt \<noteq> [] \<or> option_value opt \<noteq> []"
    and "\<forall>o' \<in> set opost. or_str (option_label o') (option_value o')
           \<noteq> or_str (option_label opt) (option_value opt)"
  shows "map_of (select_options sel) (or_str (option_label opt) (option_value opt))
           = Some (option_value opt)"
  using assms by (simp add: select_options_def fold_option_step_other option_step_hit)

lemma select_step_other:
  "select_name s \<noteq> Some nm \<Longrightarrow> map_of (select_step s filters) nm = map_of filters nm"
  by (auto simp: select_step_def update_conv' split: option.splits)

lemma fold_select_step_other:
  "\<forall>s \<in> set ss. select_name s \<noteq> Some nm \<Longrightarrow>
   map_of (fold select_step ss filters) nm = map_of filters nm"
  by (induction ss arbitrary: filters) (simp_all add: select_step_other)

lemma select_step_hit:
  "select_name s = Some nm \<Longrightarrow> nm \<noteq> [] \<Longrightarrow>
   map_of (select_step s filters) nm = Some (select_options s)"
  by (simp add: select_step_def update_conv')

text \<open>
  C7, as the code has it. Without a form the result is empty. With a form, the result has
  under the name (or else the id) of a select of the first form the options of the last
  select of that name. In the options of a select, an option with a label is stored under
  its label, an option with an empty label and a value is stored under its value, and in
  both cases what is stored is the value of the option as it is, empty when the option
  has no value (the last option written under a key wins).
\<close>

theorem extract_filter_options_collects:
  "(find_tag ''form'' (soup_of l html) = None \<longrightarrow> extract_filter_options l html = []) \<and>
   (find_tag ''form'' (soup_of l html) = Some form \<longrightarrow>
      find_all [''select''] form = pre @ sel # post \<longrightarrow>
      select_name sel = Some nm \<longrightarrow> nm \<noteq> [] \<longrightarrow>
      (\<forall>s \<in> set post. select_name s \<noteq> Some nm) \<longrightarrow>
      map_of (extract_filter_options l html) nm = Some (select_options sel)) \<and>
   (find_all [''option''] sel = opre @ opt # opost \<longrightarrow>
      (\<forall>o' \<in> set opost. or_str (option_label o') (option_value o')
           \<noteq> or_str (option_label opt) (option_value opt)) \<longrightarrow>
      (option_label opt \<noteq> [] \<longrightarrow>
         map_of (select_options sel) (option_label opt) = Some (option_value opt)) \<and>
      (option_label opt = [] \<longrightarrow> option_value opt \<noteq> [] \<longrightarrow>
         map_of (select_options sel) (option_value opt) = Some (option_value opt)))"
proof (intro conjI impI)
  assume "find_tag ''form'' (soup_of l html) = None"
  then show "extract_filter_options l html = []"
    by (simp add: extract_filter_options_def)
next
  assume a: "find_tag ''form'' (soup_of l html) = Some form"
    "find_all [''select''] form = pre @ sel # post"
    "select_name sel = Some nm" "nm \<noteq> []"
    "\<forall>s \<in> set post. select_name s \<noteq> Some nm"
  then show "map_of (extract_filter_options l html) nm = Some (select_options sel)"
    by (simp add: extract_filter_options_def fold_select_step_other select_step_hit)
next
  assume a: "find_all [''option''] sel = opre @ opt # opost"
    "\<forall>o' \<in> set opost. or_str (option_label o') (option_value o')
           \<noteq> or_str (option_label opt) (option_value opt)"
    "option_label opt \<noteq> []"
  from select_options_last [OF a(1) _ a(2)] a(3)
  show "map_of (select_options sel) (option_label opt) = Some (option_value opt)"
    by (simp add: or_str_def)
next
  assume a: "find_all [''option''] sel = opre @ opt # opost"
    "\<forall>o' \<in> set opost. or_str (option_label o') (option_value o')
           \<noteq> or_str (option_label opt) (option_value opt)"
    "option_label opt = []" "option_value opt \<noteq> []"
  from select_options_last [OF a(1) _ a(2)] a(3,4)
  show "map_of (select_options sel) (option_value opt) = Some (option_value opt)"
    by (simp add: or_str_def)
qed

theorem extract_filter_options_collects_witness:
  "extract_filter_options site_lib ''PLAIN'' = [] \<and>
   map_of (extract_filter_options site_lib ''FORM'') ''anio'' = Some (select_options sel_anio) \<and>
   map_of (select_options sel_anio) ''A2024'' = Some ''2024'' \<and>
   map_of (select_options sel_anio) ''11'' = Some ''11''"
proof -
  have nf: "find_tag ''form'' (soup_of site_lib ''PLAIN'') = None"
    by code_simp
  have f: "find_tag ''form'' (soup_of site_lib ''FORM'') = Some the_form"
    by code_simp
  have ss: "find_all [''select''] the_form = [] @ sel_anio # [sel_anon]"
    by code_simp
  have n1: "select_name sel_anio = Some ''anio''"
    by code_simp
  have n2: "select_name sel_anon = None"
    by code_simp
  have os: "find_all [''option''] sel_anio = [opt_todos] @ opt_2024 # [opt_11]"
    by code_simp
  have os': "find_all [''option''] sel_anio = [opt_todos, opt_2024] @ opt_11 # []"
    by code_simp
  have l2: "option_label opt_2024 = ''A2024''" and v2: "option_value opt_2024 = ''2024''"
    by code_simp+
  have l3: "option_label opt_11 = []" and v3: "option_value opt_11 = ''11''"
    by code_simp+
  have a: "extract_filter_options site_lib ''PLAIN'' = []"
    using extract_filter_options_collects [of site_lib "''PLAIN''"] nf by blast
  have b: "map_of (extract_filter_options site_lib ''FORM'') ''anio'' = Some (select_options sel_anio)"
    using extract_filter_options_collects
            [of site_lib "''FORM''" the_form "[]" sel_anio "[sel_anon]" "''anio''"]
      f ss n1 n2 by simp
  have c: "map_of (select_options sel_anio) ''A2024'' = Some ''2024''"
    using extract_filter_options_collects
            [of _ _ _ _ sel_anio _ _ "[opt_todos]" opt_2024 "[opt_11]"]
      os l2 v2 l3 v3 by (simp add: or_str_def)
  have d: "map_of (select_options sel_anio) ''11'' = Some ''11''"
    using extract_filter_options_collects
            [of _ _ _ _ sel_anio _ _ "[opt_todos, opt_2024]" opt_11 "[]"]
      os' l3 v3 by (simp add: or_str_def)
  from a b c d show ?thesis
    by blast
qed

theorem empty_value_counterexample:
  "option_label opt_todos = ''Todos'' \<and> option_value opt_todos = [] \<and>
   extract_filter_options site_lib ''FORM''
     = [(''anio'', [(''Todos'', []), (''A2024'', ''2024''), (''11'', ''11'')])] \<and>
   map_of (select_options sel_anio) ''Todos'' \<noteq> Some ''Todos''"
  by code_simp

section \<open>The orchestrator: results\<close>

lemma fetch_pages_append:
  "fetch_pages l send w filters (ps @ qs) acc =
     (case fetch_pages l send w filters ps acc of
        (Inl e, w') \<Rightarrow> (Inl e, w')
      | (Inr acc', w') \<Rightarrow> fetch_pages l send w' filters qs acc')"
  by (induction ps arbitrary: w acc) (auto split: prod.splits sum.splits)

lemma upto_split_at: "2 \<le> p \<Longrightarrow> p \<le> n \<Longrightarrow> [2..n] = [2..p - 1] @ p # [p + 1..n]"
  using upto_split2 [of 2 p n] upto_rec2 [of 2 p] by simp

lemma page_failure_fetch:
  "page_failure l send w filters page = (Some f, w_err) \<Longrightarrow>
   \<exists>e. fetch_events_grid_page l send w filters page 100 = (Inl e, w_err)"
  by (auto simp: page_failure_def fetch_events_grid_page_def request_ok_def raise_for_status_def
      Let_def split: prod.splits sum.splits if_splits option.splits json.splits)

lemma fetch_summary_failed:
  "grid_rows l send w filters = (Inl e, w_err) \<Longrightarrow>
   fetch_summary l send w filters = fallback l send w_err filters"
  by (cases e) (simp_all add: fetch_summary_def grid_summary_def)

lemma grid_rows_first_fails:
  "fetch_events_grid_page l send w filters 1 100 = (Inl e, w_err) \<Longrightarrow>
   grid_rows l send w filters = (Inl e, w_err)"
  by (simp add: grid_rows_def)

lemma grid_rows_later_fails:
  assumes "fetch_events_grid_page l send w filters 1 100 = (Inr (t, rs), w1)"
    and "total_pages_of l t = Inr n" and "2 \<le> p" and "p \<le> n"
    and "fetch_pages l send w1 filters [2..p - 1] (rows_of rs) = (Inr rows_data, w2)"
    and "fetch_events_grid_page l send w2 filters p 100 = (Inl e, w_err)"
  shows "grid_rows l send w filters = (Inl e, w_err)"
  using assms by (simp add: grid_rows_def upto_split_at [of p n] fetch_pages_append)

lemma scrape_events_of_summary:
  "fetch_summary l send w filters = (Inr df, w1) \<Longrightarrow>
   scrape_events l send w filters inc maxd =
     (if \<not> inc \<or> df_empty df then (Inr (df, DataFrame []), w1)
      else (Inr (df, DataFrame (fst (fetch_details l send w1 1 (detail_links df maxd)))),
            snd (fetch_details l send w1 1 (detail_links df maxd))))"
  by (simp add: scrape_events_def split: prod.splits)

lemma scrape_events_raises:
  "fetch_summary l send w filters = (Inl e, w1) \<Longrightarrow>
   scrape_events l send w filters inc maxd = (Inl e, w1)"
  by (simp add: scrape_events_def)

lemma scrape_events_after_failure:
  assumes "grid_rows l send w filters = (Inl e, w_err)"
  shows "case get_events_page l send w_err filters of
           (Inl e', w') \<Rightarrow> scrape_events l send w filters inc maxd = (Inl e', w')
         | (Inr html, w') \<Rightarrow>
             \<exists>details w''. scrape_events l send w filters inc maxd
               = (Inr (parse_events_table l html, details), w'')"
proof -
  from assms have fs: "fetch_summary l send w filters = fallback l send w_err filters"
    by (rule fetch_summary_failed)
  show ?thesis
  proof (cases "get_events_page l send w_err filters")
    case (Pair r w')
    show ?thesis
    proof (cases r)
      case (Inl e')
      with Pair fs have "fetch_summary l send w filters = (Inl e', w')"
        by (simp add: fallback_def)
      with Pair Inl show ?thesis
        by (simp add: scrape_events_raises)
    next
      case (Inr html)
      with Pair fs have "fetch_summary l send w filters = (Inr (parse_events_table l html), w')"
        by (simp add: fallback_def)
      from scrape_events_of_summary [OF this] Pair Inr show ?thesis
        by simp
    qed
  qed
qed

text \<open>
  C1. When something goes wrong on the wire while a grid page is fetched (a transport
  failure, a body that is not JSON, or a JSON body that is not an object; at the first
  page, or at a later page \<open>p\<close> up to the announced total after the pages before it
  were fetched), \<open>scrape_events\<close> requests the listing page with the same filters in the
  state the failed fetch left. If that request fails too, its error is raised; otherwise
  the summary returned is exactly \<open>parse_events_table\<close> of the text of that page,
  whatever rows the earlier pages gave.
\<close>

theorem scrape_events_falls_back:
  assumes "page_failure l send w filters 1 = (Some f, w_err) \<or>
     (\<exists>t rs w1 n p rows_data w2.
        fetch_events_grid_page l send w filters 1 100 = (Inr (t, rs), w1) \<and>
        total_pages_of l t = Inr n \<and> 2 \<le> p \<and> p \<le> n \<and>
        fetch_pages l send w1 filters [2..p - 1] (rows_of rs) = (Inr rows_data, w2) \<and>
        page_failure l send w2 filters p = (Some f, w_err))"
  shows "case get_events_page l send w_err filters of
           (Inl e', w') \<Rightarrow> scrape_events l send w filters inc maxd = (Inl e', w')
         | (Inr html, w') \<Rightarrow>
             \<exists>details w''. scrape_events l send w filters inc maxd
               = (Inr (parse_events_table l html, details), w'')"
proof -
  from assms have "\<exists>e. grid_rows l send w filters = (Inl e, w_err)"
  proof
    assume "page_failure l send w filters 1 = (Some f, w_err)"
    from page_failure_fetch [OF this] obtain e where
      "fetch_events_grid_page l send w filters 1 100 = (Inl e, w_err)" ..
    then have "grid_rows l send w filters = (Inl e, w_err)"
      by (rule grid_rows_first_fails)
    then show ?thesis ..
  next
    assume "\<exists>t rs w1 n p rows_data w2.
        fetch_events_grid_page l send w filters 1 100 = (Inr (t, rs), w1) \<and>
        total_pages_of l t = Inr n \<and> 2 \<le> p \<and> p \<le> n \<and>
        fetch_pages l send w1 filters [2..p - 1] (rows_of rs) = (Inr rows_data, w2) \<and>
        page_failure l send w2 filters p = (Some f, w_err)"
    then obtain t rs w1 n p rows_data w2 where
      a: "fetch_events_grid_page l send w filters 1 100 = (Inr (t, rs), w1)"
        "total_pages_of l t = Inr n" "2 \<le> p" "p \<le> n"
        "fetch_pages l send w1 filters [2..p - 1] (rows_of rs) = (Inr rows_data, w2)"
      and pf: "page_failure l send w2 filters p = (Some f, w_err)"
      by (elim exE conjE)
    from page_failure_fetch [OF pf] obtain e where
      "fetch_events_grid_page l send w2 filters p 100 = (Inl e, w_err)" ..
    with a have "grid_rows l send w filters = (Inl e, w_err)"
      by (rule grid_rows_later_fails)
    then show ?thesis ..
  qed
  then obtain e where "grid_rows l send w filters = (Inl e, w_err)" ..
  then show ?thesis
    by (rule scrape_events_after_failure)
qed

lemma site_page1:
  "fetch_events_grid_page site_lib site 0 [] 1 100
     = (Inr (Some (TInt 2), Some [[Field ''EventoId'' ''5'', Field ''Nombre'' ''Feria A'']]), 2)"
  by code_simp

theorem scrape_events_falls_back_witness:
  "page_failure site_lib site 2 [] 2 = (Some (Transport ''timed out''), 4) \<and>
   get_events_page site_lib site 4 [] = (Inr ''LISTING'', 5) \<and>
   (\<exists>details w''. scrape_events site_lib site 0 [] True None
      = (Inr (parse_events_table site_lib ''LISTING'', details), w'')) \<and>
   page_failure site_lib (one_page (Inr (ok ''garbage''))) 0 [] 1 = (Some Malformed, 2) \<and>
   (\<exists>details w''. scrape_events site_lib (one_page (Inr (ok ''garbage''))) 0 [] True None
      = (Inr (parse_events_table site_lib ''LISTING'', details), w'')) \<and>
   page_failure site_lib (one_page (Inr (ok ''[1, 2]''))) 0 [] 1 = (Some NonObject, 2) \<and>
   (\<exists>details w''. scrape_events site_lib (one_page (Inr (ok ''[1, 2]''))) 0 [] True None
      = (Inr (parse_events_table site_lib ''LISTING'', details), w'')) \<and>
   page_failure site_lib (one_page (Inr \<lparr>status_code = 500, resp_text = []\<rparr>)) 0 [] 1
     = (Some (Transport ''HTTP error''), 2) \<and>
   (\<exists>details w''.
      scrape_events site_lib (one_page (Inr \<lparr>status_code = 500, resp_text = []\<rparr>)) 0 [] True None
      = (Inr (parse_events_table site_lib ''LISTING'', details), w''))"
proof -
  have tp: "total_pages_of site_lib (Some (TInt 2)) = Inr 2"
    by code_simp
  have fp: "fetch_pages site_lib site 2 [] [2..2 - 1]
              (rows_of (Some [[Field ''EventoId'' ''5'', Field ''Nombre'' ''Feria A'']]))
            = (Inr [[Field ''EventoId'' ''5'', Field ''Nombre'' ''Feria A'']], 2)"
    by code_simp
  have p2: "page_failure site_lib site 2 [] 2 = (Some (Transport ''timed out''), 4)"
    by code_simp
  have g4: "get_events_page site_lib site 4 [] = (Inr ''LISTING'', 5)"
    by code_simp
  have "\<exists>t rs w1 n p rows_data w2.
        fetch_events_grid_page site_lib site 0 [] 1 100 = (Inr (t, rs), w1) \<and>
        total_pages_of site_lib t = Inr n \<and> 2 \<le> p \<and> p \<le> n \<and>
        fetch_pages site_lib site w1 [] [2..p - 1] (rows_of rs) = (Inr rows_data, w2) \<and>
        page_failure site_lib site w2 [] p = (Some (Transport ''timed out''), 4)"
    using site_page1 tp fp p2 by (intro exI [of _ 2] exI conjI) (assumption | simp)+
  then have hyp: "page_failure site_lib site 0 [] 1 = (Some (Transport ''timed out''), 4) \<or>
     (\<exists>t rs w1 n p rows_data w2.
        fetch_events_grid_page site_lib site 0 [] 1 100 = (Inr (t, rs), w1) \<and>
        total_pages_of site_lib t = Inr n \<and> 2 \<le> p \<and> p \<le> n \<and>
        fetch_pages site_lib site w1 [] [2..p - 1] (rows_of rs) = (Inr rows_data, w2) \<and>
        page_failure site_lib site w2 [] p = (Some (Transport ''timed out''), 4))"
    by (rule disjI2)
  from scrape_events_falls_back [OF hyp, of True None] g4
  have a: "\<exists>details w''. scrape_events site_lib site 0 [] True None
      = (Inr (parse_events_table site_lib ''LISTING'', details), w'')"
    by simp
  have m: "page_failure site_lib (one_page (Inr (ok ''garbage''))) 0 [] 1 = (Some Malformed, 2)"
    by code_simp
  have gm: "get_events_page site_lib (one_page (Inr (ok ''garbage''))) 2 [] = (Inr ''LISTING'', 3)"
    by code_simp
  from scrape_events_falls_back [OF disjI1, OF m, of True None] gm
  have b: "\<exists>details w''. scrape_events site_lib (one_page (Inr (ok ''garbage''))) 0 [] True None
      = (Inr (parse_events_table site_lib ''LISTING'', details), w'')"
    by simp
  have n: "page_failure site_lib (one_page (Inr (ok ''[1, 2]''))) 0 [] 1 = (Some NonObject, 2)"
    by code_simp
  have gn: "get_events_page site_lib (one_page (Inr (ok ''[1, 2]''))) 2 [] = (Inr ''LISTING'', 3)"
    by code_simp
  from scrape_events_falls_back [OF disjI1, OF n, of True None] gn
  have c: "\<exists>details w''. scrape_events site_lib (one_page (Inr (ok ''[1, 2]''))) 0 [] True None
      = (Inr (parse_events_table site_lib ''LISTING'', details), w'')"
    by simp
  have s: "page_failure site_lib (one_page (Inr \<lparr>status_code = 500, resp_text = []\<rparr>)) 0 [] 1
     = (Some (Transport ''HTTP error''), 2)"
    by code_simp
  have gs: "get_events_page site_lib (one_page (Inr \<lparr>status_code = 500, resp_text = []\<rparr>)) 2 []
     = (Inr ''LISTING'', 3)"
    by code_simp
  from scrape_events_falls_back [OF disjI1, OF s, of True None] gs
  have d: "\<exists>details w''.
      scrape_events site_lib (one_page (Inr \<lparr>status_code = 500, resp_text = []\<rparr>)) 0 [] True None
      = (Inr (parse_events_table site_lib ''LISTING'', details), w'')"
    by simp
  from p2 g4 a m b n c s d show ?thesis
    by (intro conjI)
qed

lemma set_first_seen: "set (first_seen xs) = set xs"
  by (simp add: first_seen_def)

lemma length_records_DataFrame: "length (records (DataFrame ds)) = length ds"
  by (simp add: DataFrame_def Let_def)

lemma set_columns_DataFrame: "set (columns (DataFrame ds)) = (\<Union>d \<in> set ds. fst ` set d)"
  by (simp add: DataFrame_def Let_def set_first_seen)

lemma map_of_tabulate:
  "map_of (map (\<lambda>c. (c, f c)) cols) c = (if c \<in> set cols then Some (f c) else None)"
  by (induction cols) auto

lemma frame_cell_missing: "cell_of d c = NaN \<Longrightarrow> frame_cell ds d c = NaN"
  by (simp add: frame_cell_def)

lemma cell_of_DataFrame:
  assumes "i < length ds"
  shows "cell_of (records (DataFrame ds) ! i) c = frame_cell ds (ds ! i) c"
proof (cases "c \<in> set (columns (DataFrame ds))")
  case True
  with assms show ?thesis
    by (simp add: DataFrame_def Let_def cell_of_def map_of_tabulate)
next
  case False
  with assms have "c \<notin> fst ` set (ds ! i)"
    by (auto simp: set_columns_DataFrame)
  then have "map_of (ds ! i) c = None"
    by (simp add: map_of_eq_None_iff)
  then have "cell_of (ds ! i) c = NaN"
    by (simp add: cell_of_def)
  then have "frame_cell ds (ds ! i) c = NaN"
    by (rule frame_cell_missing)
  with False assms show ?thesis
    by (simp add: DataFrame_def Let_def cell_of_def map_of_tabulate)
qed

lemma to_float_url_cell: "url_cell x \<Longrightarrow> to_float x = x"
  by (cases x) simp_all

lemma frame_cell_keep: "to_float (cell_of d c) = cell_of d c \<Longrightarrow> frame_cell ds d c = cell_of d c"
  by (simp add: frame_cell_def)


lemma cell_of_DataFrame_keep:
  "i < length ds \<Longrightarrow> to_float (cell_of (ds ! i) c) = cell_of (ds ! i) c \<Longrightarrow>
   cell_of (records (DataFrame ds) ! i) c = cell_of (ds ! i) c"
  by (simp add: cell_of_DataFrame frame_cell_keep)

lemma column_DataFrame_url:
  assumes "\<forall>d \<in> set ds. url_cell (cell_of d c)"
  shows "list_all url_cell (column (DataFrame ds) c)"
proof -
  have "url_cell (cell_of (records (DataFrame ds) ! i) c)" if "i < length ds" for i
    using that assms by (simp add: cell_of_DataFrame_keep to_float_url_cell)
  then have "url_cell (column (DataFrame ds) c ! i)" if "i < length (column (DataFrame ds) c)" for i
    using that by (simp add: column_def length_records_DataFrame)
  then show ?thesis
    unfolding list_all_length by blast
qed

lemma cell_of_update:
  "cell_of (AList.update c v r) c' = (if c' = c then v else cell_of r c')"
  by (simp add: cell_of_def update_conv')

lemma length_records_set_column:
  "length vals = length (records df) \<Longrightarrow> length (records (set_column df c vals)) = length (records df)"
  by (simp add: set_column_def)

lemma cell_of_set_column:
  "length vals = length (records df) \<Longrightarrow> i < length (records df) \<Longrightarrow>
   cell_of (records (set_column df c vals) ! i) c' =
     (if c' = c then vals ! i else cell_of (records df ! i) c')"
  by (simp add: set_column_def cell_of_update)

lemma column_set_column:
  "length vals = length (records df) \<Longrightarrow> column (set_column df c vals) c = vals"
  by (rule nth_equalityI) (simp_all add: column_def length_records_set_column cell_of_set_column)


lemma length_column: "length (column df c) = length (records df)"
  by (simp add: column_def)



lemma row_get_other: "c \<noteq> ''EventoId'' \<Longrightarrow> row_get r c = Some v \<Longrightarrow> \<exists>s. v = Str s"
proof (induction r)
  case Nil
  then show ?case by (simp add: row_get_def)
next
  case (Cons e r)
  then show ?case by (cases e) (auto simp: row_get_def split: if_splits)
qed


lemma row_cell_url: "c \<noteq> ''EventoId'' \<Longrightarrow> url_cell (cell_of (map entry_cell r) c)"
  using row_get_other [of c r]
  by (auto simp: cell_of_def row_get_def split: option.splits)









lemma fold_update_url:
  "\<forall>c. url_cell (cell_of d c) \<Longrightarrow>
   url_cell (cell_of (fold (\<lambda>(idx, v) d. AList.update (f idx) (Str v) d) zs d) c)"
  by (induction zs arbitrary: d) (auto simp: cell_of_update)

lemma row_dict_url: "url_cell (cell_of (row_dict l headers tr) c)"
proof -
  have "\<forall>c. url_cell (cell_of [] c)"
    by (simp add: cell_of_def)
  from fold_update_url [OF this] show ?thesis
    by (auto simp: row_dict_def Let_def cell_of_update split: option.splits)
qed

lemma parse_events_table_url: "list_all url_cell (df_get (parse_events_table l html) c)"
proof -
  have "list_all url_cell (column (table_frame l t) c)" for t
    unfolding table_frame_def Let_def by (rule column_DataFrame_url) (auto simp: row_dict_url)
  moreover have "column (DataFrame []) c = []"
    by (simp add: column_def DataFrame_def first_seen_def)
  ultimately show ?thesis
    by (simp add: parse_events_table_def parse_events_table_soup_def df_get_def
        split: option.splits)
qed

lemma build_detail_url_url: "list_all url_cell (map (build_detail_url l) xs)"
  by (induction xs) (simp_all add: build_detail_url_def)

lemma df_get_url: "list_all url_cell (column df c) \<Longrightarrow> list_all url_cell (df_get df c)"
  by (simp add: df_get_def)

lemma grid_frame_url: "list_all url_cell (df_get (grid_frame l rows_data) ''detalle_url'')"
proof -
  let ?df = "DataFrame (row_cells rows_data)"
  have a: "list_all url_cell (column ?df ''detalle_url'')"
    by (rule column_DataFrame_url) (auto simp: row_cells_def row_cell_url)
  have b: "column (set_column ?df ''detalle_url'' (map (build_detail_url l) (column ?df ''EventoId'')))
             ''detalle_url'' = map (build_detail_url l) (column ?df ''EventoId'')"
    by (rule column_set_column) (simp add: length_column)
  have c: "column (set_column ?df ''detalle_url'' (replicate (length (records ?df)) (Str [])))
             ''detalle_url'' = replicate (length (records ?df)) (Str [])"
    by (rule column_set_column) simp
  have b': "list_all url_cell (df_get
      (set_column ?df ''detalle_url'' (map (build_detail_url l) (column ?df ''EventoId'')))
      ''detalle_url'')"
    by (rule df_get_url) (simp only: b build_detail_url_url)
  have c': "list_all url_cell (df_get
      (set_column ?df ''detalle_url'' (replicate (length (records ?df)) (Str [])))
      ''detalle_url'')"
    by (rule df_get_url) (simp add: c list_all_iff)
  from a have a': "list_all url_cell (df_get ?df ''detalle_url'')"
    by (rule df_get_url)
  show ?thesis
    unfolding grid_frame_def Let_def using a' b' c' by presburger
qed

lemma fetch_summary_url:
  assumes "fetch_summary l send w filters = (Inr df, w1)"
  shows "list_all url_cell (df_get df ''detalle_url'')"
proof (cases "grid_rows l send w filters")
  case (Pair r w2)
  show ?thesis
  proof (cases r)
    case (Inr rows_data)
    with Pair assms have "df = grid_frame l rows_data"
      by (simp add: fetch_summary_def grid_summary_def)
    then show ?thesis
      by (simp add: grid_frame_url)
  next
    case (Inl e)
    with Pair have "fetch_summary l send w filters = fallback l send w2 filters"
      by (simp add: fetch_summary_failed)
    with assms obtain html where "df = parse_events_table l html"
      by (auto simp: fallback_def split: prod.splits sum.splits)
    then show ?thesis
      by (simp add: parse_events_table_url)
  qed
qed

lemma detail_links_url:
  "list_all url_cell (df_get df ''detalle_url'') \<Longrightarrow> list_all url_cell (detail_links df maxd)"
  by (auto simp: detail_links_def Let_def slice_to_def list_all_iff
      split: option.splits dest: in_set_takeD)

lemma detail_step_tags:
  "map_of (fst (detail_step l send w idx url)) ''detalle_url'' = Some url \<and>
   map_of (fst (detail_step l send w idx url)) ''indice'' = Some (Str (str_nat idx))"
  by (simp add: detail_step_def Let_def update_conv' split: prod.splits sum.splits)

lemma detail_step_error:
  "request_ok l send w (GET (cell_str l url) [] timeout) = (Inl msg, w') \<Longrightarrow>
   fst (detail_step l send w idx url)
     = [(''detalle_url'', url), (''error'', Str msg), (''indice'', Str (str_nat idx))]"
  by (simp add: detail_step_def)

lemma fetch_details_Cons:
  "fst (fetch_details l send w idx (u # us)) =
     fst (detail_step l send w idx u)
       # fst (fetch_details l send (snd (detail_step l send w idx u)) (Suc idx) us)"
  "snd (fetch_details l send w idx (u # us)) =
     snd (fetch_details l send (snd (detail_step l send w idx u)) (Suc idx) us)"
  by (simp_all split: prod.splits)

lemma length_fetch_details:
  "length (fst (fetch_details l send w idx links)) = length links"
  by (induction links arbitrary: w idx) (simp_all add: fetch_details_Cons del: fetch_details.simps(2))

lemma fetch_details_nth:
  "i < length links \<Longrightarrow>
   fst (fetch_details l send w idx links) ! i =
     fst (detail_step l send (snd (fetch_details l send w idx (take i links))) (idx + i) (links ! i))"
proof (induction links arbitrary: w idx i)
  case Nil
  then show ?case by simp
next
  case (Cons u us)
  show ?case
  proof (cases i)
    case 0
    then show ?thesis by (simp add: fetch_details_Cons del: fetch_details.simps(2))
  next
    case (Suc j)
    with Cons.prems have j: "j < length us" by simp
    from Cons.IH [OF j, of "snd (detail_step l send w idx u)" "Suc idx"] Suc show ?thesis
      by (simp add: fetch_details_Cons del: fetch_details.simps(2))
  qed
qed

lemma slice_to_length:
  "0 \<le> n \<Longrightarrow> length (slice_to n xs) = min (nat n) (length xs)"
  by (simp add: slice_to_def)

lemma scrape_events_details:
  assumes "scrape_events l send w filters True maxd = (Inr (summary, details), w')"
    and "\<not> df_empty summary"
  shows "\<exists>w1. fetch_summary l send w filters = (Inr summary, w1) \<and>
           details = DataFrame (fst (fetch_details l send w1 1 (detail_links summary maxd)))"
proof (cases "fetch_summary l send w filters")
  case (Pair r w1)
  show ?thesis
  proof (cases r)
    case (Inl e)
    with Pair assms show ?thesis by (simp add: scrape_events_def)
  next
    case (Inr df)
    with Pair have fs: "fetch_summary l send w filters = (Inr df, w1)" by simp
    from scrape_events_of_summary [OF fs, of True maxd] assms(1)
    have "df = summary"
      by (simp split: if_splits)
    with scrape_events_of_summary [OF fs, of True maxd] assms fs show ?thesis
      by (simp split: if_splits)
  qed
qed

lemma truthy_url: "url_cell x \<Longrightarrow> x \<noteq> NaN \<Longrightarrow> truthy x = nonempty_url x"
  by (cases x) simp_all

text \<open>
  C2, as the code has it. With details requested and a summary that is not empty: under
  a positive \<open>max_details\<close> there are at most that many detail records; without
  \<open>max_details\<close>, and when no row of the summary lacks its \<open>detalle_url\<close>, there are
  as many detail records as the summary has non-empty \<open>detalle_url\<close> values; and a
  \<open>max_details\<close> of 0 gives no detail record, since \<open>links[:0]\<close> is empty.
\<close>

theorem detail_count_cap:
  assumes "scrape_events l send w filters True maxd = (Inr (summary, details), w')"
    and "\<not> df_empty summary"
  shows "(\<forall>n. maxd = Some n \<longrightarrow> 0 < n \<longrightarrow> int (length (records details)) \<le> n) \<and>
         (maxd = None \<longrightarrow> NaN \<notin> set (df_get summary ''detalle_url'') \<longrightarrow>
            length (records details)
              = length (filter nonempty_url (df_get summary ''detalle_url''))) \<and>
         (maxd = Some 0 \<longrightarrow> length (records details) = 0)"
proof -
  from scrape_events_details [OF assms] obtain w1 where
    fs: "fetch_summary l send w filters = (Inr summary, w1)" and
    d: "details = DataFrame (fst (fetch_details l send w1 1 (detail_links summary maxd)))"
    by blast
  then have len: "length (records details) = length (detail_links summary maxd)"
    by (simp add: length_records_DataFrame length_fetch_details)
  from fetch_summary_url [OF fs] have
    "NaN \<notin> set (df_get summary ''detalle_url'') \<Longrightarrow>
     filter truthy (df_get summary ''detalle_url'')
       = filter nonempty_url (df_get summary ''detalle_url'')"
    by (intro filter_cong refl truthy_url) (auto simp: list_all_iff)
  then show ?thesis
    unfolding len by (auto simp: detail_links_def Let_def slice_to_length)
qed

lemma detail_records_follow_links:
  assumes "scrape_events l send w filters True maxd = (Inr (summary, details), w')"
    and "\<not> df_empty summary"
  shows "length (records details) = length (detail_links summary maxd) \<and>
         (\<forall>i < length (detail_links summary maxd).
            cell_of (records details ! i) ''detalle_url'' = detail_links summary maxd ! i \<and>
            cell_of (records details ! i) ''indice'' = Str (str_nat (Suc i)))"
proof -
  let ?links = "detail_links summary maxd"
  from scrape_events_details [OF assms] obtain w1 where
    fs: "fetch_summary l send w filters = (Inr summary, w1)" and
    d: "details = DataFrame (fst (fetch_details l send w1 1 ?links))"
    by blast
  then have len: "length (records details) = length ?links"
    by (simp add: length_records_DataFrame length_fetch_details)
  have urls: "list_all url_cell ?links"
    using fetch_summary_url [OF fs] by (rule detail_links_url)
  {
    fix i assume i: "i < length ?links"
    let ?row = "fst (fetch_details l send w1 1 ?links) ! i"
    from detail_step_tags [of l send _ "1 + i" "?links ! i"] fetch_details_nth [OF i, of l send w1 1]
    have r: "cell_of ?row ''detalle_url'' = ?links ! i"
      "cell_of ?row ''indice'' = Str (str_nat (Suc i))"
      by (simp_all add: cell_of_def)
    from urls i have "url_cell (?links ! i)"
      by (simp add: list_all_length)
    with r have "to_float (cell_of ?row ''detalle_url'') = cell_of ?row ''detalle_url''"
      "to_float (cell_of ?row ''indice'') = cell_of ?row ''indice''"
      by (simp_all add: to_float_url_cell)
    with i r have "cell_of (records details ! i) ''detalle_url'' = ?links ! i \<and>
          cell_of (records details ! i) ''indice'' = Str (str_nat (Suc i))"
      by (simp add: d cell_of_DataFrame_keep length_fetch_details)
  }
  with len show ?thesis by blast
qed

text \<open>
  C9. With details requested and a summary that is not empty, \<open>scrape_events\<close> returns
  that same summary and one detail record for each link. When the fetch of the link at
  position \<open>i\<close> fails with the message \<open>msg\<close> (in the state the fetches before it
  left), its record has the link as \<open>detalle_url\<close>, \<open>msg\<close> as \<open>error\<close>,
  \<open>str(i + 1)\<close> as \<open>indice\<close> and nothing else.
\<close>

theorem failed_detail_recorded:
  assumes "fetch_summary l send w filters = (Inr summary, w1)"
    and "\<not> df_empty summary"
  shows "\<exists>details w2.
           scrape_events l send w filters True maxd = (Inr (summary, details), w2) \<and>
           length (records details) = length (detail_links summary maxd) \<and>
           (\<forall>i < length (detail_links summary maxd). \<forall>msg wi.
              request_ok l send
                (snd (fetch_details l send w1 1 (take i (detail_links summary maxd))))
                (GET (cell_str l (detail_links summary maxd ! i)) [] timeout) = (Inl msg, wi) \<longrightarrow>
              cell_of (records details ! i) ''detalle_url'' = detail_links summary maxd ! i \<and>
              cell_of (records details ! i) ''error'' = Str msg \<and>
              cell_of (records details ! i) ''indice'' = Str (str_nat (Suc i)) \<and>
              (\<forall>c. c \<notin> {''detalle_url'', ''error'', ''indice''} \<longrightarrow>
                 cell_of (records details ! i) c = NaN))"
proof -
  let ?links = "detail_links summary maxd"
  let ?rows = "fst (fetch_details l send w1 1 ?links)"
  let ?details = "DataFrame ?rows"
  have se: "scrape_events l send w filters True maxd
              = (Inr (summary, ?details), snd (fetch_details l send w1 1 ?links))"
    using scrape_events_of_summary [OF assms(1), of True maxd] assms(2) by simp
  have len: "length (records ?details) = length ?links"
    by (simp add: length_records_DataFrame length_fetch_details)
  have urls: "list_all url_cell ?links"
    using fetch_summary_url [OF assms(1)] by (rule detail_links_url)
  {
    fix i msg wi
    assume i: "i < length ?links"
      and f: "request_ok l send (snd (fetch_details l send w1 1 (take i ?links)))
                (GET (cell_str l (?links ! i)) [] timeout) = (Inl msg, wi)"
    let ?row = "[(''detalle_url'', ?links ! i), (''error'', Str msg),
                 (''indice'', Str (str_nat (Suc i)))]"
    have row: "?rows ! i = ?row"
      using fetch_details_nth [OF i, of l send w1 1] detail_step_error [OF f, of "1 + i"]
      by simp
    from urls i have u: "url_cell (?links ! i)"
      by (simp add: list_all_length)
    have "url_cell (cell_of ?row c)" for c
      using u by (simp add: cell_of_def)
    then have "to_float (cell_of (?rows ! i) c) = cell_of (?rows ! i) c" for c
      unfolding row by (rule to_float_url_cell)
    then have "cell_of (records ?details ! i) c = cell_of (?rows ! i) c" for c
      using i by (simp add: cell_of_DataFrame_keep length_fetch_details)
    then have "cell_of (records ?details ! i) c = cell_of ?row c" for c
      unfolding row .
    then have "cell_of (records ?details ! i) ''detalle_url'' = ?links ! i \<and>
               cell_of (records ?details ! i) ''error'' = Str msg \<and>
               cell_of (records ?details ! i) ''indice'' = Str (str_nat (Suc i)) \<and>
               (\<forall>c. c \<notin> {''detalle_url'', ''error'', ''indice''} \<longrightarrow>
                  cell_of (records ?details ! i) c = NaN)"
      by (simp add: cell_of_def)
  }
  with se len show ?thesis by blast
qed

lemma site_100_none:
  "scrape_events site_lib site 100 [] True None = (Inr (summary_two, details_two), 106)"
  by code_simp

lemma site_100_one:
  "scrape_events site_lib site 100 [] True (Some 1) = (Inr (summary_two, details_one), 105)"
  by code_simp

lemma site_100_zero:
  "scrape_events site_lib site 100 [] True (Some 0) = (Inr (summary_two, DataFrame []), 104)"
  by code_simp

lemma summary_two_nonempty: "\<not> df_empty summary_two"
  by code_simp

lemma summary_two_urls: "df_get summary_two ''detalle_url'' = [Str url_5, Str url_6]"
  by code_simp

lemma links_two: "detail_links summary_two None = [Str url_5, Str url_6]"
  by code_simp

theorem detail_count_cap_witness:
  "scrape_events site_lib site 100 [] True (Some 1) = (Inr (summary_two, details_one), 105) \<and>
   scrape_events site_lib site 100 [] True None = (Inr (summary_two, details_two), 106) \<and>
   scrape_events site_lib site 100 [] True (Some 0) = (Inr (summary_two, DataFrame []), 104) \<and>
   df_get summary_two ''detalle_url'' = [Str url_5, Str url_6] \<and>
   int (length (records details_one)) \<le> 1 \<and>
   length (records details_two) = length (filter nonempty_url (df_get summary_two ''detalle_url'')) \<and>
   length (records (DataFrame [])) = 0"
proof -
  have nn: "NaN \<notin> set (df_get summary_two ''detalle_url'')"
    by (simp add: summary_two_urls)
  from detail_count_cap [OF site_100_one summary_two_nonempty]
  have a: "int (length (records details_one)) \<le> 1"
    by simp
  from detail_count_cap [OF site_100_none summary_two_nonempty] nn
  have b: "length (records details_two)
             = length (filter nonempty_url (df_get summary_two ''detalle_url''))"
    by simp
  from detail_count_cap [OF site_100_zero summary_two_nonempty]
  have c: "length (records (DataFrame [])) = 0"
    by simp
  from site_100_one site_100_none site_100_zero summary_two_urls a b c show ?thesis
    by (intro conjI)
qed

theorem zero_cap_counterexample:
  "scrape_events site_lib site 100 [] True (Some 0) = (Inr (summary_two, DataFrame []), 104) \<and>
   \<not> df_empty summary_two \<and>
   length (filter nonempty_url (df_get summary_two ''detalle_url'')) = 2 \<and>
   length (records (DataFrame [])) = 0"
  by code_simp

text \<open>
  C3 on a grid result whose first row has no \<open>detalle_url\<close> and whose second row has
  the link \<open>http://a/4\<close>. The summary has one non-empty \<open>detalle_url\<close>, yet there are
  two detail records: the record at the first position belongs to the missing cell
  (\<open>NaN\<close> passes the test \<open>if u\<close>), and the record of the only link has the
  \<open>indice\<close> 2.
\<close>

theorem missing_link_takes_position:
  "grid_rows site_lib (one_page (Inr (ok ''NANROWS''))) 0 [] = (Inr nan_rows, 2) \<and>
   scrape_events site_lib (one_page (Inr (ok ''NANROWS''))) 0 [] True None
     = (Inr (nan_summary, nan_details), 4) \<and>
   df_get nan_summary ''detalle_url'' = [NaN, Str ''http://a/4''] \<and>
   filter nonempty_url (df_get nan_summary ''detalle_url'') = [Str ''http://a/4''] \<and>
   length (records nan_details) = 2 \<and>
   cell_of (records nan_details ! 0) ''detalle_url'' = NaN \<and>
   cell_of (records nan_details ! 0) ''indice'' = Str ''1'' \<and>
   cell_of (records nan_details ! 1) ''detalle_url'' = Str ''http://a/4'' \<and>
   cell_of (records nan_details ! 1) ''indice'' = Str ''2''"
  by code_simp

theorem missing_link_takes_position_witness:
  "scrape_events site_lib (one_page (Inr (ok ''NANROWS''))) 0 [] True None
     = (Inr (nan_summary, nan_details), 4) \<and>
   filter nonempty_url (df_get nan_summary ''detalle_url'') = [Str ''http://a/4''] \<and>
   cell_of (records nan_details ! 1) ''detalle_url'' = Str ''http://a/4'' \<and>
   cell_of (records nan_details ! 1) ''indice'' = Str ''2''"
  using missing_link_takes_position by (elim conjE) (intro conjI)







text \<open>
  In a frame where a row lacks the identifier, pandas holds the integer identifiers as
  floats, and the URL of the identifier 5 is built from \<open>5.0\<close>.
\<close>

lemma float_id_example:
  "cell_of (records (grid_frame site_lib [[IntId 5], []]) ! 0) ''EventoId'' = PyFloat 5 \<and>
   cell_of (records (grid_frame site_lib [[IntId 5], []]) ! 0) ''detalle_url''
     = Str ''https://pulepapp.mincultura.gov.co/InformesPublicos/EventoFichap/5.0''"
  by code_simp

lemma summary_100: "fetch_summary site_lib site 100 [] = (Inr summary_two, 104)"
  by code_simp

theorem failed_detail_recorded_witness:
  "fetch_summary site_lib site 100 [] = (Inr summary_two, 104) \<and>
   detail_links summary_two None = [Str url_5, Str url_6] \<and>
   request_ok site_lib site 105 (GET url_6 [] timeout) = (Inl ''timed out'', 106) \<and>
   (\<exists>details w2.
      scrape_events site_lib site 100 [] True None = (Inr (summary_two, details), w2) \<and>
      length (records details) = 2 \<and>
      cell_of (records details ! 1) ''detalle_url'' = Str url_6 \<and>
      cell_of (records details ! 1) ''error'' = Str ''timed out'' \<and>
      cell_of (records details ! 1) ''indice'' = Str ''2'' \<and>
      cell_of (records details ! 1) ''Nombre'' = NaN)"
proof -
  have s2: "str_nat (Suc 1) = ''2''"
    by code_simp
  have st: "snd (fetch_details site_lib site 104 1 (take 1 [Str url_5, Str url_6])) = 105"
    by code_simp
  have rq: "request_ok site_lib site 105 (GET url_6 [] timeout) = (Inl ''timed out'', 106)"
    by code_simp
  have i: "1 < length [Str url_5, Str url_6]"
    by simp
  have nth: "[Str url_5, Str url_6] ! 1 = Str url_6"
    by simp
  have rq': "request_ok site_lib site
               (snd (fetch_details site_lib site 104 1 (take 1 [Str url_5, Str url_6])))
               (GET (cell_str site_lib ([Str url_5, Str url_6] ! 1)) [] timeout)
             = (Inl ''timed out'', 106)"
    by (simp only: st nth cell_str.simps rq)
  have nm: "''Nombre'' \<notin> {''detalle_url'', ''error'', ''indice''}"
    by simp
  from failed_detail_recorded [OF summary_100 summary_two_nonempty, of None, unfolded links_two]
  obtain details w2 where
    P: "scrape_events site_lib site 100 [] True None = (Inr (summary_two, details), w2) \<and>
        length (records details) = length [Str url_5, Str url_6] \<and>
        (\<forall>i < length [Str url_5, Str url_6]. \<forall>msg wi.
           request_ok site_lib site
             (snd (fetch_details site_lib site 104 1 (take i [Str url_5, Str url_6])))
             (GET (cell_str site_lib ([Str url_5, Str url_6] ! i)) [] timeout) = (Inl msg, wi) \<longrightarrow>
           cell_of (records details ! i) ''detalle_url'' = [Str url_5, Str url_6] ! i \<and>
           cell_of (records details ! i) ''error'' = Str msg \<and>
           cell_of (records details ! i) ''indice'' = Str (str_nat (Suc i)) \<and>
           (\<forall>c. c \<notin> {''detalle_url'', ''error'', ''indice''} \<longrightarrow>
              cell_of (records details ! i) c = NaN))"
    by (elim exE) (rule that)
  note E = P [THEN conjunct2, THEN conjunct2, rule_format, OF i rq']
  have e1: "cell_of (records details ! 1) ''detalle_url'' = Str url_6"
    using E [THEN conjunct1] by (simp only: nth)
  have e2: "cell_of (records details ! 1) ''error'' = Str ''timed out''"
    by (rule E [THEN conjunct2, THEN conjunct1])
  have e3: "cell_of (records details ! 1) ''indice'' = Str ''2''"
    using E [THEN conjunct2, THEN conjunct2, THEN conjunct1] by (simp only: s2)
  have e4: "cell_of (records details ! 1) ''Nombre'' = NaN"
    using E [THEN conjunct2, THEN conjunct2, THEN conjunct2, rule_format, OF nm] .
  have len: "length (records details) = 2"
    using P [THEN conjunct2, THEN conjunct1] by simp
  from P [THEN conjunct1] len e1 e2 e3 e4
  have "\<exists>details w2.
      scrape_events site_lib site 100 [] True None = (Inr (summary_two, details), w2) \<and>
      length (records details) = 2 \<and>
      cell_of (records details ! 1) ''detalle_url'' = Str url_6 \<and>
      cell_of (records details ! 1) ''error'' = Str ''timed out'' \<and>
      cell_of (records details ! 1) ''indice'' = Str ''2'' \<and>
      cell_of (records details ! 1) ''Nombre'' = NaN"
    by (intro exI conjI)
  with summary_100 links_two rq show ?thesis
    by (intro conjI)
qed

end
